theory Spec2Isabelle
  imports Complex_Main "HOL-Library.Char_ord" "HOL-Library.List_Lexorder"
    "HOL-Library.Product_Lexorder"
begin

section \<open>Cells, rows and frames\<close>

text \<open>
  The program of \<^verbatim>\<open>app.py\<close> works on two pandas data frames. A numeric cell of a
  frame is a float64: a number or NaN. Numbers are idealised as rationals (floating-point
  rounding is outside the model) and NaN is \<open>None\<close>; a text cell is a string or missing.
  Comparing a NaN cell with a number is false whatever the comparison, as in pandas.
\<close>

type_synonym num = "rat option"

definition notna :: "'a option \<Rightarrow> bool" where
  "notna c = (c \<noteq> None)"

definition cell_ge :: "('a::ord) option \<Rightarrow> 'a \<Rightarrow> bool" where
  "cell_ge c v = (case c of None \<Rightarrow> False | Some x \<Rightarrow> v \<le> x)"

definition cell_le :: "('a::ord) option \<Rightarrow> 'a \<Rightarrow> bool" where
  "cell_le c v = (case c of None \<Rightarrow> False | Some x \<Rightarrow> x \<le> v)"

definition cell_lt :: "('a::ord) option \<Rightarrow> 'a \<Rightarrow> bool" where
  "cell_lt c v = (case c of None \<Rightarrow> False | Some x \<Rightarrow> x < v)"

definition isin :: "'a option \<Rightarrow> 'a list \<Rightarrow> bool" where
  "isin c vs = (case c of None \<Rightarrow> False | Some v \<Rightarrow> v \<in> set vs)"

text \<open>A parsed date (a pandas Timestamp); \<open>None\<close> of \<open>timestamp option\<close> is NaT.\<close>

datatype timestamp = Timestamp (ts_year: int) (ts_month: int) (ts_day: int)

text \<open>
  A row of the domestic (KOBIS) frame, with the columns the program reads. The type
  parameter is the type of the \<open>openDt\<close> cell: raw text as read from the CSV file,
  \<open>timestamp option\<close> once \<^verbatim>\<open>pd.to_datetime\<close> has run. \<open>month\<close> is the derived
  column that the analysis stages store into the frame; it is meaningful only when the
  frame lists a column of that name.
\<close>

record 'd kobis_row =
  movieNm :: string
  year :: "int option"
  openDt :: 'd
  audiCnt :: num
  salesAmt :: num
  audiAcc :: num
  scrnCnt :: num
  genres :: "string option"
  month :: "int option"

text \<open>A row of the global (TMDB) frame.\<close>

record 'd tmdb_row =
  title :: "string option"
  tmdb_year :: "int option"
  release_date :: 'd
  vote_average :: num
  vote_count :: num
  popularity :: num
  original_language :: "string option"

text \<open>A data frame: the names of its columns and its rows in order.\<close>

record 'r frame =
  columns :: "string list"
  rows :: "'r list"

type_synonym kobis_frame = "timestamp option kobis_row frame"
type_synonym tmdb_frame = "timestamp option tmdb_row frame"

definition has_column :: "string \<Rightarrow> 'r frame \<Rightarrow> bool" where
  "has_column c df = (c \<in> set (columns df))"

definition empty_frame :: "'r frame \<Rightarrow> bool" where
  "empty_frame df = (rows df = [])"

text \<open>Boolean-mask selection \<^verbatim>\<open>df[mask]\<close>: a new frame with the rows where the mask holds.\<close>

definition select :: "('r \<Rightarrow> bool) \<Rightarrow> 'r frame \<Rightarrow> 'r frame" where
  "select P df = df\<lparr>rows := filter P (rows df)\<rparr>"

datatype py_error = ZeroDivisionError | KeyError | ValueError

section \<open>Loading and cleaning: \<^verbatim>\<open>load_and_process_data\<close>\<close>

text \<open>
  \<^verbatim>\<open>pd.read_csv\<close> is outside the program: its result is an input of the model, \<open>None\<close>
  when the read raises. \<^verbatim>\<open>pd.to_datetime(..., errors='coerce')\<close> is a parameter
  \<open>to_datetime\<close> that parses one raw cell, NaT (\<open>None\<close>) when it cannot. The
  whole body runs under \<^verbatim>\<open>try\<close>: any exception, here a read that fails or a
  subscripted column that the frame does not have, makes the function return
  \<^verbatim>\<open>(None, None)\<close>, which is \<open>None\<close>.
\<close>

definition current_year :: int where
  "current_year = 2024"

definition kobis_to_datetime ::
  "('s \<Rightarrow> timestamp option) \<Rightarrow> 's kobis_row \<Rightarrow> timestamp option kobis_row" where
  "kobis_to_datetime to_datetime r =
     \<lparr>movieNm = movieNm r, year = year r, openDt = to_datetime (openDt r),
      audiCnt = audiCnt r, salesAmt = salesAmt r, audiAcc = audiAcc r, scrnCnt = scrnCnt r,
      genres = genres r, month = month r\<rparr>"

definition tmdb_to_datetime ::
  "('s \<Rightarrow> timestamp option) \<Rightarrow> 's tmdb_row \<Rightarrow> timestamp option tmdb_row" where
  "tmdb_to_datetime to_datetime r =
     \<lparr>title = title r, tmdb_year = tmdb_year r, release_date = to_datetime (release_date r),
      vote_average = vote_average r, vote_count = vote_count r, popularity = popularity r,
      original_language = original_language r\<rparr>"

definition load_and_process_data ::
  "('s \<Rightarrow> timestamp option) \<Rightarrow> 's kobis_row frame option \<Rightarrow> 's tmdb_row frame option
     \<Rightarrow> (kobis_frame \<times> tmdb_frame) option" where
  "load_and_process_data to_datetime kobis_csv tmdb_csv =
     (case kobis_csv of
        None \<Rightarrow> None
      | Some kobis_df0 \<Rightarrow>
     (case tmdb_csv of
        None \<Rightarrow> None
      | Some tmdb_df0 \<Rightarrow>
          if has_column ''year'' kobis_df0 \<and> has_column ''year'' tmdb_df0
             \<and> has_column ''openDt'' kobis_df0 \<and> has_column ''release_date'' tmdb_df0
             \<and> has_column ''audiCnt'' kobis_df0 \<and> has_column ''salesAmt'' kobis_df0
             \<and> has_column ''vote_average'' tmdb_df0
          then
            let kobis_df1 = select (\<lambda>r. cell_le (year r) current_year) kobis_df0;
                tmdb_df1 = select (\<lambda>r. cell_le (tmdb_year r) current_year) tmdb_df0;
                kobis_df2 = \<lparr>columns = columns kobis_df1,
                             rows = map (kobis_to_datetime to_datetime) (rows kobis_df1)\<rparr>;
                tmdb_df2 = \<lparr>columns = columns tmdb_df1,
                            rows = map (tmdb_to_datetime to_datetime) (rows tmdb_df1)\<rparr>;
                kobis_df3 = select (\<lambda>r. cell_ge (audiCnt r) 0) kobis_df2;
                kobis_df4 = select (\<lambda>r. cell_ge (salesAmt r) 0) kobis_df3;
                tmdb_df3 = select (\<lambda>r. cell_ge (vote_average r) 0 \<and> cell_le (vote_average r) 10)
                             tmdb_df2
            in Some (kobis_df4, tmdb_df3)
          else None))"

text \<open>The filter of \<^verbatim>\<open>main\<close> to the recent years.\<close>

definition recent_years :: "int list" where
  "recent_years = [2022, 2023, 2024]"

definition kobis_recent :: "kobis_frame \<Rightarrow> kobis_frame" where
  "kobis_recent kobis_df = select (\<lambda>r. isin (year r) recent_years) kobis_df"

definition tmdb_recent :: "tmdb_frame \<Rightarrow> tmdb_frame" where
  "tmdb_recent tmdb_df = select (\<lambda>r. isin (tmdb_year r) recent_years) tmdb_df"

section \<open>Column statistics\<close>

text \<open>
  \<^verbatim>\<open>Series.sum\<close>, \<^verbatim>\<open>mean\<close> and \<^verbatim>\<open>max\<close> skip NaN cells: the sum of no valid
  cell is 0, the mean and the maximum of none are NaN. \<^verbatim>\<open>idxmax\<close> is the position of the
  first cell holding the maximum; on a column without a valid cell the lookup
  \<^verbatim>\<open>df.loc[df[c].idxmax()]\<close> raises.
\<close>

definition valid :: "'a option list \<Rightarrow> 'a list" where
  "valid cs = map the (filter notna cs)"

definition col_sum :: "num list \<Rightarrow> rat" where
  "col_sum cs = sum_list (valid cs)"

definition col_mean :: "num list \<Rightarrow> num" where
  "col_mean cs =
     (let vs = valid cs in if vs = [] then None else Some (sum_list vs / of_nat (length vs)))"

definition col_max :: "num list \<Rightarrow> num" where
  "col_max cs = (let vs = valid cs in if vs = [] then None else Some (fold max (tl vs) (hd vs)))"

definition idxmax :: "num list \<Rightarrow> py_error + nat" where
  "idxmax cs =
     (case col_max cs of
        None \<Rightarrow> Inl KeyError
      | Some m \<Rightarrow> Inr (length (takeWhile (\<lambda>c. c \<noteq> Some m) cs)))"

section \<open>Key metrics: \<^verbatim>\<open>show_key_metrics\<close>\<close>

text \<open>
  The analysis stages are modelled on frames that carry the columns they subscript without
  a test; the columns they test for (\<^verbatim>\<open>'openDt' in kobis_df.columns\<close>) are looked up in
  \<open>columns\<close>. The assignment \<^verbatim>\<open>kobis_df['month'] = kobis_df['openDt'].dt.month\<close> stores
  a column into the frame the function was given: the model returns the frame as the call
  leaves it. The month of NaT is NaN.
\<close>

definition has_dates :: "kobis_frame \<Rightarrow> bool" where
  "has_dates kobis_df =
     (has_column ''openDt'' kobis_df \<and> \<not> list_all (\<lambda>r. openDt r = None) (rows kobis_df))"

definition set_month :: "kobis_frame \<Rightarrow> kobis_frame" where
  "set_month kobis_df =
     \<lparr>columns = (if has_column ''month'' kobis_df then columns kobis_df
                  else columns kobis_df @ [''month'']),
      rows = map (\<lambda>r. r\<lparr>month := map_option ts_month (openDt r)\<rparr>) (rows kobis_df)\<rparr>"

record key_metrics =
  top_korean_movie :: "timestamp option kobis_row option"
  total_audience :: rat
  avg_screen :: num
  top_rating :: num

text \<open>
  Line 144 raises when the frame is not empty and no \<open>audiAcc\<close> is valid; that happens
  before the assignment of \<open>month\<close>, so an exception leaves the frame as it was.
\<close>

definition show_key_metrics ::
  "kobis_frame \<Rightarrow> tmdb_frame \<Rightarrow> py_error + (kobis_frame \<times> key_metrics)" where
  "show_key_metrics kobis_df tmdb_df =
     (case (if \<not> empty_frame kobis_df
            then (case idxmax (map audiAcc (rows kobis_df)) of
                    Inl e \<Rightarrow> Inl e
                  | Inr i \<Rightarrow> Inr (Some (rows kobis_df ! i)))
            else Inr None) of
        Inl e \<Rightarrow> Inl e
      | Inr top_movie \<Rightarrow>
          Inr (if has_dates kobis_df then set_month kobis_df else kobis_df,
               \<lparr>top_korean_movie = top_movie,
                total_audience =
                  (if \<not> empty_frame kobis_df then col_sum (map audiAcc (rows kobis_df)) else 0),
                avg_screen =
                  (if \<not> empty_frame kobis_df then col_mean (map scrnCnt (rows kobis_df))
                   else Some 0),
                top_rating =
                  (if \<not> empty_frame tmdb_df then col_max (map vote_average (rows tmdb_df))
                   else Some 0)\<rparr>))"

section \<open>Ranking and bucketing: \<^verbatim>\<open>show_korean_analysis\<close>, first part\<close>

text \<open>
  \<^verbatim>\<open>DataFrame.nlargest(n, col)\<close> is pandas' own: the first \<open>n\<close> rows in descending
  order of the column, the rows with NaN after all others, in input order. The program
  fixes no version of pandas, and the order of rows of equal value depends on how pandas
  sorts:
  \<^item> for \<open>n\<close> smaller than the number of rows pandas selects with a stable sort, and rows
    of equal value come in input order (\<^verbatim>\<open>keep='first'\<close>);
  \<^item> for \<open>n\<close> at least the number of rows pandas calls
    \<^verbatim>\<open>sort_values(ascending=False).head(n)\<close> with its default sort, which is not stable:
    the order it gives to rows of equal value is not fixed by the program. That order is
    a parameter of the model: \<open>tie\<close> ranks the rows, and rows of equal value come in
    increasing rank (in input order where the ranks are equal too). Every order of the
    rows of equal value is the order of some \<open>tie\<close>.
\<close>

definition stable_ranking :: "('r \<Rightarrow> num) \<Rightarrow> 'r list \<Rightarrow> 'r list" where
  "stable_ranking col rs =
     sort_key (\<lambda>r. - the (col r)) (filter (\<lambda>r. notna (col r)) rs)
     @ filter (\<lambda>r. \<not> notna (col r)) rs"

definition default_ranking :: "('r \<Rightarrow> nat) \<Rightarrow> ('r \<Rightarrow> num) \<Rightarrow> 'r list \<Rightarrow> 'r list" where
  "default_ranking tie col rs =
     sort_key (\<lambda>r. (- the (col r), tie r)) (filter (\<lambda>r. notna (col r)) rs)
     @ filter (\<lambda>r. \<not> notna (col r)) rs"

definition nlargest :: "('r \<Rightarrow> nat) \<Rightarrow> nat \<Rightarrow> ('r \<Rightarrow> num) \<Rightarrow> 'r list \<Rightarrow> 'r list" where
  "nlargest tie n col rs =
     take n (if length rs \<le> n then default_ranking tie col rs else stable_ranking col rs)"

text \<open>The rank column \<^verbatim>\<open>range(1, len(top) + 1)\<close>, paired with the rows.\<close>

definition ranked :: "'r list \<Rightarrow> (nat \<times> 'r) list" where
  "ranked rs = zip [1..<length rs + 1] rs"

text \<open>
  The top ten by \<open>audiAcc\<close>. \<^verbatim>\<open>top_movies['year'].astype(int)\<close> raises when a year of
  the selected rows is NaN. Formatting the cells as text is presentation and not modelled.
\<close>

definition top_movies ::
  "(timestamp option kobis_row \<Rightarrow> nat) \<Rightarrow> kobis_frame
     \<Rightarrow> py_error + (nat \<times> timestamp option kobis_row) list" where
  "top_movies tie kobis_df =
     (let tops = nlargest tie 10 audiAcc (rows kobis_df)
      in if list_all (\<lambda>r. notna (year r)) tops then Inr (ranked tops) else Inl ValueError)"

text \<open>The five audience ranges of lines 251-258, in the order of \<^verbatim>\<open>audience_ranges\<close>.\<close>

definition audience_counts :: "kobis_frame \<Rightarrow> nat list" where
  "audience_counts kobis_df =
     [length (rows (select (\<lambda>r. cell_lt (audiAcc r) 100000) kobis_df)),
      length (rows (select (\<lambda>r. cell_ge (audiAcc r) 100000 \<and> cell_lt (audiAcc r) 1000000)
                      kobis_df)),
      length (rows (select (\<lambda>r. cell_ge (audiAcc r) 1000000 \<and> cell_lt (audiAcc r) 5000000)
                      kobis_df)),
      length (rows (select (\<lambda>r. cell_ge (audiAcc r) 5000000 \<and> cell_lt (audiAcc r) 10000000)
                      kobis_df)),
      length (rows (select (\<lambda>r. cell_ge (audiAcc r) 10000000) kobis_df))]"

section \<open>Genre explosion and aggregation: \<^verbatim>\<open>show_korean_analysis\<close>, second part\<close>

text \<open>
  \<^verbatim>\<open>str.split(',')\<close> and \<^verbatim>\<open>str.strip()\<close>. Strings are byte lists here, and the
  white space that \<open>strip\<close> removes is the ASCII white space of Python's \<^verbatim>\<open>str.isspace\<close>.
\<close>

fun split_on :: "char \<Rightarrow> string \<Rightarrow> string list" where
  "split_on d [] = [[]]"
| "split_on d (c # cs) =
     (if c = d then [] # split_on d cs
      else (case split_on d cs of [] \<Rightarrow> [[c]] | p # ps \<Rightarrow> (c # p) # ps))"

definition isspace :: "char \<Rightarrow> bool" where
  "isspace c = (of_char c \<in> set [9, 10, 11, 12, 13, 28, 29, 30, 31, 32 :: nat])"

definition strip :: "string \<Rightarrow> string" where
  "strip s = rev (dropWhile isspace (rev (dropWhile isspace s)))"

text \<open>An entry of \<^verbatim>\<open>genre_data\<close>: the dictionary appended at lines 277-281.\<close>

record genre_row =
  genre :: string
  gd_audiCnt :: rat
  gd_salesAmt :: rat

text \<open>\<^verbatim>\<open>row[c] if pd.notna(row[c]) else 0\<close>\<close>

definition notna_else_0 :: "num \<Rightarrow> rat" where
  "notna_else_0 c = (if notna c then the c else 0)"

text \<open>The body of the loop over the rows (lines 272-281), and the loop.\<close>

definition genre_data_step :: "'d kobis_row \<Rightarrow> genre_row list \<Rightarrow> genre_row list" where
  "genre_data_step row genre_data0 =
     (if notna (genres row)
      then fold (\<lambda>g acc.
                   let g' = strip g
                   in if g' \<noteq> []
                      then acc @ [\<lparr>genre = g', gd_audiCnt = notna_else_0 (audiCnt row),
                                   gd_salesAmt = notna_else_0 (salesAmt row)\<rparr>]
                      else acc)
             (split_on CHR '','' (the (genres row))) genre_data0
      else genre_data0)"

definition genre_data :: "'d kobis_row frame \<Rightarrow> genre_row list" where
  "genre_data kobis_df = fold genre_data_step (rows kobis_df) []"

text \<open>
  \<^verbatim>\<open>DataFrame.round(0)\<close> rounds to the nearest whole number, a half to the even
  neighbour.
\<close>

definition round0 :: "rat \<Rightarrow> rat" where
  "round0 q =
     (let f = \<lfloor>q\<rfloor>; d = q - of_int f
      in of_int (if d < 1 / 2 then f else if 1 / 2 < d then f + 1
                 else if even f then f else f + 1))"

text \<open>\<^verbatim>\<open>groupby\<close> lists each key once, in sorted order.\<close>

definition groupby_keys :: "('k::linorder) list \<Rightarrow> 'k list" where
  "groupby_keys ks = sort (remdups ks)"

text \<open>
  The four columns of \<^verbatim>\<open>genre_summary\<close>: the sum, mean and count of \<open>audiCnt\<close> and the
  sum of \<open>salesAmt\<close>.
\<close>

record genre_stats =
  audiCnt_sum :: rat
  audiCnt_mean :: rat
  audiCnt_count :: nat
  salesAmt_sum :: rat

definition genre_agg :: "genre_row list \<Rightarrow> (string \<times> genre_stats) list" where
  "genre_agg genre_df =
     map (\<lambda>g. let grp = filter (\<lambda>e. genre e = g) genre_df
               in (g, \<lparr>audiCnt_sum = round0 (sum_list (map gd_audiCnt grp)),
                       audiCnt_mean =
                         round0 (sum_list (map gd_audiCnt grp) / of_nat (length grp)),
                       audiCnt_count = length grp,
                       salesAmt_sum = round0 (sum_list (map gd_salesAmt grp))\<rparr>))
         (groupby_keys (map genre genre_df))"

text \<open>
  Sorting by the column of the audience sums, descending, and \<^verbatim>\<open>head(8)\<close>. The order that pandas gives to
  groups with equal sums is not fixed by the program; they are kept in key order here.
\<close>

definition genre_summary :: "genre_row list \<Rightarrow> (string \<times> genre_stats) list" where
  "genre_summary genre_df =
     take 8 (sort_key (\<lambda>gs. - audiCnt_sum (snd gs)) (genre_agg genre_df))"

definition genre_chart :: "kobis_frame \<Rightarrow> (string \<times> genre_stats) list option" where
  "genre_chart kobis_df =
     (if has_column ''genres'' kobis_df \<and> \<not> list_all (\<lambda>r. genres r = None) (rows kobis_df)
      then (let genre_df = genre_data kobis_df
            in if genre_df \<noteq> [] then Some (genre_summary genre_df) else None)
      else None)"

record korean_analysis =
  ka_top_movies :: "(nat \<times> timestamp option kobis_row) list"
  ka_audience_counts :: "nat list"
  ka_genre_summary :: "(string \<times> genre_stats) list option"

text \<open>The whole stage; an empty frame returns at once (\<open>None\<close>).\<close>

definition show_korean_analysis ::
  "(timestamp option kobis_row \<Rightarrow> nat) \<Rightarrow> kobis_frame \<Rightarrow> py_error + korean_analysis option" where
  "show_korean_analysis tie kobis_df =
     (if empty_frame kobis_df then Inr None
      else (case top_movies tie kobis_df of
              Inl e \<Rightarrow> Inl e
            | Inr tops \<Rightarrow>
                Inr (Some \<lparr>ka_top_movies = tops,
                           ka_audience_counts = audience_counts kobis_df,
                           ka_genre_summary = genre_chart kobis_df\<rparr>)))"

section \<open>Global analysis: \<^verbatim>\<open>show_global_analysis\<close>\<close>

text \<open>
  The statistics per language: \<^verbatim>\<open>groupby('original_language')\<close> leaves out the rows with
  a missing language; \<^verbatim>\<open>count\<close> counts the valid cells of a group and \<^verbatim>\<open>mean\<close> is the
  mean of its valid cells.
\<close>

record lang_stats =
  title_count :: nat
  vote_average_mean :: num
  popularity_mean :: num

definition lang_agg :: "'d tmdb_row list \<Rightarrow> (string \<times> lang_stats) list" where
  "lang_agg rs =
     map (\<lambda>l. let grp = filter (\<lambda>r. original_language r = Some l) rs
               in (l, \<lparr>title_count = length (valid (map title grp)),
                       vote_average_mean = col_mean (map vote_average grp),
                       popularity_mean = col_mean (map popularity grp)\<rparr>))
         (groupby_keys (valid (map original_language rs)))"

definition lang_analysis :: "'d tmdb_row list \<Rightarrow> (string \<times> lang_stats) list" where
  "lang_analysis rs = take 10 (sort_key (\<lambda>ls. - int (title_count (snd ls))) (lang_agg rs))"

record global_analysis =
  top_rated :: "(nat \<times> timestamp option tmdb_row) list"
  top_popular :: "(nat \<times> timestamp option tmdb_row) list"
  ga_lang_analysis :: "(string \<times> lang_stats) list option"

definition show_global_analysis ::
  "(timestamp option tmdb_row \<Rightarrow> nat) \<Rightarrow> (timestamp option tmdb_row \<Rightarrow> nat) \<Rightarrow> tmdb_frame
     \<Rightarrow> global_analysis option" where
  "show_global_analysis tie_rated tie_popular tmdb_df =
     (if empty_frame tmdb_df then None
      else Some \<lparr>top_rated = ranked (nlargest tie_rated 10 vote_average (rows tmdb_df)),
                 top_popular = ranked (nlargest tie_popular 10 popularity (rows tmdb_df)),
                 ga_lang_analysis =
                   (if has_column ''original_language'' tmdb_df
                    then Some (lang_analysis (rows tmdb_df)) else None)\<rparr>)"

section \<open>Insight calculator: the rate expression\<close>

text \<open>
  Python's true division of two counts raises on a zero divisor.
\<close>

definition truediv :: "nat \<Rightarrow> nat \<Rightarrow> py_error + rat" where
  "truediv a b = (if b = 0 then Inl ZeroDivisionError else Inr (of_nat a / of_nat b))"

text \<open>
  The expression \<^verbatim>\<open>(count / total * 100) if total > 0 else 0\<close>, which
  \<^verbatim>\<open>show_insights\<close> uses for the blockbuster rate, the summer rate and the quality rate.
\<close>

definition rate :: "nat \<Rightarrow> nat \<Rightarrow> py_error + rat" where
  "rate cnt tot =
     (if tot > 0
      then (case truediv cnt tot of Inl e \<Rightarrow> Inl e | Inr q \<Rightarrow> Inr (q * 100))
      else Inr 0)"

section \<open>Insights: \<^verbatim>\<open>show_insights\<close>\<close>

text \<open>
  An insight is \<open>None\<close> when the program does not compute it. The function stores the
  \<open>month\<close> column into the domestic frame, as \<^verbatim>\<open>show_key_metrics\<close> does; the model
  returns the frame as the call leaves it.
\<close>

record insights =
  blockbuster_rate :: "rat option"
  summer_rate :: "rat option"
  quality_rate :: "rat option"
  unique_languages :: "nat option"

definition korean_insights ::
  "kobis_frame \<Rightarrow> py_error + (kobis_frame \<times> rat option \<times> rat option)" where
  "korean_insights kobis_df =
     (if \<not> empty_frame kobis_df
      then
        (let total_movies = length (rows kobis_df);
             blockbuster_count =
               length (rows (select (\<lambda>r. cell_ge (audiAcc r) 10000000) kobis_df))
         in case rate blockbuster_count total_movies of
              Inl e \<Rightarrow> Inl e
            | Inr blockbuster \<Rightarrow>
                if has_dates kobis_df
                then
                  (let kobis_df' = set_month kobis_df;
                       summer_movies =
                         length (rows (select (\<lambda>r. isin (month r) [6, 7, 8]) kobis_df'));
                       total_with_date =
                         length (rows (select (\<lambda>r. notna (openDt r)) kobis_df'))
                   in case rate summer_movies total_with_date of
                        Inl e \<Rightarrow> Inl e
                      | Inr summer \<Rightarrow> Inr (kobis_df', Some blockbuster, Some summer))
                else Inr (kobis_df, Some blockbuster, None))
      else Inr (kobis_df, None, None))"

definition global_insights :: "tmdb_frame \<Rightarrow> py_error + (rat option \<times> nat option)" where
  "global_insights tmdb_df =
     (if \<not> empty_frame tmdb_df
      then
        (let high_rated = length (rows (select (\<lambda>r. cell_ge (vote_average r) 8) tmdb_df));
             total_tmdb = length (rows tmdb_df)
         in case rate high_rated total_tmdb of
              Inl e \<Rightarrow> Inl e
            | Inr quality \<Rightarrow>
                Inr (Some quality,
                     if has_column ''original_language'' tmdb_df
                     then Some (length (remdups (valid (map original_language (rows tmdb_df)))))
                     else None))
      else Inr (None, None))"

definition show_insights ::
  "kobis_frame \<Rightarrow> tmdb_frame \<Rightarrow> py_error + (kobis_frame \<times> insights)" where
  "show_insights kobis_df tmdb_df =
     (case korean_insights kobis_df of
        Inl e \<Rightarrow> Inl e
      | Inr (kobis_df', blockbuster, summer) \<Rightarrow>
          (case global_insights tmdb_df of
             Inl e \<Rightarrow> Inl e
           | Inr (quality, languages) \<Rightarrow>
               Inr (kobis_df',
                    \<lparr>blockbuster_rate = blockbuster, summer_rate = summer,
                     quality_rate = quality, unique_languages = languages\<rparr>)))"

section \<open>The pipeline: \<^verbatim>\<open>main\<close>\<close>

text \<open>
  \<^verbatim>\<open>main\<close> loads, stops when the load failed (\<open>None\<close>), keeps the recent years and
  runs the four stages on the same two frames, so a stage sees the domestic frame as the
  stage before left it. The three \<open>tie\<close> parameters are those of the three rankings.
\<close>

record report =
  rp_kobis :: kobis_frame
  rp_key_metrics :: key_metrics
  rp_korean :: "korean_analysis option"
  rp_global :: "global_analysis option"
  rp_insights :: insights

definition main ::
  "('s \<Rightarrow> timestamp option) \<Rightarrow> (timestamp option kobis_row \<Rightarrow> nat)
     \<Rightarrow> (timestamp option tmdb_row \<Rightarrow> nat) \<Rightarrow> (timestamp option tmdb_row \<Rightarrow> nat)
     \<Rightarrow> 's kobis_row frame option \<Rightarrow> 's tmdb_row frame option
     \<Rightarrow> py_error + report option" where
  "main to_datetime tie_movies tie_rated tie_popular kobis_csv tmdb_csv =
     (case load_and_process_data to_datetime kobis_csv tmdb_csv of
        None \<Rightarrow> Inr None
      | Some (kobis_df, tmdb_df) \<Rightarrow>
          (case show_key_metrics (kobis_recent kobis_df) (tmdb_recent tmdb_df) of
             Inl e \<Rightarrow> Inl e
           | Inr (kobis1, metrics) \<Rightarrow>
               (case show_korean_analysis tie_movies kobis1 of
                  Inl e \<Rightarrow> Inl e
                | Inr korean \<Rightarrow>
                    (case show_insights kobis1 (tmdb_recent tmdb_df) of
                       Inl e \<Rightarrow> Inl e
                     | Inr (kobis2, ins) \<Rightarrow>
                         Inr (Some \<lparr>rp_kobis = kobis2, rp_key_metrics = metrics,
                                    rp_korean = korean,
                                    rp_global =
                                      show_global_analysis tie_rated tie_popular
                                        (tmdb_recent tmdb_df),
                                    rp_insights = ins\<rparr>)))))"

section \<open>Reference definitions for the statements\<close>

text \<open>
  The labels of a record that survive the explosion, in the words of the specification:
  the raw field split on the comma, each part trimmed, the empty parts dropped. A record
  without a genre field has none.
\<close>

definition surviving_genres :: "string option \<Rightarrow> string list" where
  "surviving_genres c =
     (case c of
        None \<Rightarrow> []
      | Some s \<Rightarrow> filter (\<lambda>g. g \<noteq> []) (map strip (split_on CHR '','' s)))"

text \<open>
  The fan-out of one record: one exploded row per surviving label, each carrying the
  record's \<open>audiCnt\<close> and \<open>salesAmt\<close> (0 where the record has none).
\<close>

definition exploded_rows :: "'d kobis_row \<Rightarrow> genre_row list" where
  "exploded_rows r =
     map (\<lambda>g. \<lparr>genre = g, gd_audiCnt = notna_else_0 (audiCnt r),
                 gd_salesAmt = notna_else_0 (salesAmt r)\<rparr>)
         (surviving_genres (genres r))"

text \<open>How often a label occurs among the surviving labels of a record.\<close>

definition occurrences :: "string \<Rightarrow> 'd kobis_row \<Rightarrow> nat" where
  "occurrences g r = count_list (surviving_genres (genres r)) g"

text \<open>
  The cells of a metric that the records contribute to the group of a label: the cell of
  a record once for each exploded row of that label.
\<close>

definition contributions :: "('d kobis_row \<Rightarrow> num) \<Rightarrow> string \<Rightarrow> 'd kobis_row list \<Rightarrow> num list" where
  "contributions col g rs = concat (map (\<lambda>r. replicate (occurrences g r) (col r)) rs)"

text \<open>The rule for ties that ranks all rows alike, and so leaves them in input order.\<close>

definition keep_order :: "'r \<Rightarrow> nat" where
  "keep_order r = 0"

text \<open>Frames with the columns of the two CSV files, for the concrete instances below.\<close>

definition kobis_of :: "'d kobis_row list \<Rightarrow> 'd kobis_row frame" where
  "kobis_of rs =
     \<lparr>columns = [''movieNm'', ''year'', ''openDt'', ''audiCnt'', ''salesAmt'', ''audiAcc'',
                 ''scrnCnt'', ''genres''],
      rows = rs\<rparr>"

definition tmdb_of :: "'d tmdb_row list \<Rightarrow> 'd tmdb_row frame" where
  "tmdb_of rs =
     \<lparr>columns = [''title'', ''year'', ''release_date'', ''vote_average'', ''vote_count'',
                 ''popularity'', ''original_language''],
      rows = rs\<rparr>"

section \<open>Properties\<close>

subsection \<open>The explosion loop and the groups\<close>

lemma fold_genre_parts:
  "fold (\<lambda>g acc. let g' = strip g in if g' \<noteq> [] then acc @ [f g'] else acc) ps acc
     = acc @ map f (filter (\<lambda>g. g \<noteq> []) (map strip ps))"
  by (induction ps arbitrary: acc) (simp_all add: Let_def)

lemma genre_data_step_append: "genre_data_step r acc = acc @ exploded_rows r"
  by (cases "genres r")
     (simp_all add: genre_data_step_def exploded_rows_def surviving_genres_def notna_def
        fold_genre_parts)

lemma fold_genre_data_step:
  "fold genre_data_step rs acc = acc @ concat (map exploded_rows rs)"
  by (induction rs arbitrary: acc) (simp_all add: genre_data_step_append)

lemma genre_data_concat: "genre_data df = concat (map exploded_rows (rows df))"
  by (simp add: genre_data_def fold_genre_data_step)

lemma genre_exploded_rows: "map genre (exploded_rows r) = surviving_genres (genres r)"
  by (simp add: exploded_rows_def comp_def)

lemma genre_of_genre_data:
  "map genre (genre_data df) = concat (map (\<lambda>r. surviving_genres (genres r)) (rows df))"
  by (simp add: genre_data_concat map_concat comp_def genre_exploded_rows)

lemma sum_group_one:
  "sum_list (map h (filter (\<lambda>e. genre e = g)
       (map (\<lambda>g. \<lparr>genre = g, gd_audiCnt = a, gd_salesAmt = b\<rparr>) gs)))
     = of_nat (count_list gs g) * h \<lparr>genre = g, gd_audiCnt = a, gd_salesAmt = b\<rparr>"
  by (induction gs) (simp_all add: algebra_simps)

lemma length_group_map:
  "length (filter (\<lambda>e. genre e = g)
       (map (\<lambda>g. \<lparr>genre = g, gd_audiCnt = a, gd_salesAmt = b\<rparr>) gs))
     = count_list gs g"
  by (induction gs) simp_all

lemma length_group_one:
  "length (filter (\<lambda>e. genre e = g) (exploded_rows r)) = occurrences g r"
  unfolding exploded_rows_def occurrences_def by (rule length_group_map)

lemma audiCnt_group_one:
  "sum_list (map gd_audiCnt (filter (\<lambda>e. genre e = g) (exploded_rows r)))
     = of_nat (occurrences g r) * notna_else_0 (audiCnt r)"
  unfolding exploded_rows_def occurrences_def sum_group_one by simp

lemma salesAmt_group_one:
  "sum_list (map gd_salesAmt (filter (\<lambda>e. genre e = g) (exploded_rows r)))
     = of_nat (occurrences g r) * notna_else_0 (salesAmt r)"
  unfolding exploded_rows_def occurrences_def sum_group_one by simp

lemma length_group:
  "length (filter (\<lambda>e. genre e = g) (concat (map exploded_rows rs)))
     = (\<Sum>r\<leftarrow>rs. occurrences g r)"
  by (induction rs) (simp_all add: length_group_one)

lemma audiCnt_group:
  "sum_list (map gd_audiCnt (filter (\<lambda>e. genre e = g) (concat (map exploded_rows rs))))
     = (\<Sum>r\<leftarrow>rs. of_nat (occurrences g r) * notna_else_0 (audiCnt r))"
  by (induction rs) (simp_all add: audiCnt_group_one)

lemma salesAmt_group:
  "sum_list (map gd_salesAmt (filter (\<lambda>e. genre e = g) (concat (map exploded_rows rs))))
     = (\<Sum>r\<leftarrow>rs. of_nat (occurrences g r) * notna_else_0 (salesAmt r))"
  by (induction rs) (simp_all add: salesAmt_group_one)

lemma set_groupby_keys: "set (groupby_keys ks) = set ks"
  by (simp add: groupby_keys_def)

lemma distinct_groupby_keys: "distinct (groupby_keys ks)"
  by (simp add: groupby_keys_def)

lemma map_of_keyed:
  "map_of (map (\<lambda>k. (k, f k)) ks) g = (if g \<in> set ks then Some (f g) else None)"
  by (induction ks) simp_all

text \<open>
  The group of a label in the aggregation of the exploded rows, in terms of the records:
  a record adds its value once for each time the label survives in it, and every exploded
  row counts in the mean's denominator.
\<close>

lemma genre_agg_lookup:
  "map_of (genre_agg (genre_data df)) g =
     (if g \<in> set (map genre (genre_data df))
      then Some \<lparr>audiCnt_sum =
                   round0 (\<Sum>r\<leftarrow>rows df. of_nat (occurrences g r) * notna_else_0 (audiCnt r)),
                 audiCnt_mean =
                   round0 ((\<Sum>r\<leftarrow>rows df. of_nat (occurrences g r) * notna_else_0 (audiCnt r))
                           / of_nat (\<Sum>r\<leftarrow>rows df. occurrences g r)),
                 audiCnt_count = (\<Sum>r\<leftarrow>rows df. occurrences g r),
                 salesAmt_sum =
                   round0 (\<Sum>r\<leftarrow>rows df. of_nat (occurrences g r) * notna_else_0 (salesAmt r))\<rparr>
      else None)"
  unfolding genre_agg_def Let_def map_of_keyed set_groupby_keys
  by (simp add: genre_data_concat length_group audiCnt_group salesAmt_group)

lemma set_genre_summary: "set (genre_summary gd) \<subseteq> set (genre_agg gd)"
  unfolding genre_summary_def by (metis set_sort set_take_subset)

lemma length_genre_summary: "length (genre_summary gd) = min 8 (length (genre_agg gd))"
  by (simp add: genre_summary_def)

lemma genre_group_size:
  "(\<Sum>r\<leftarrow>rows df. occurrences g r) = length (filter (\<lambda>e. genre e = g) (genre_data df))"
  by (simp add: genre_data_concat length_group)

subsection \<open>The language groups\<close>



lemma col_mean_valid:
  "col_mean cs =
     (if filter notna cs = [] then None
      else Some (sum_list (valid cs) / of_nat (length (filter notna cs))))"
  by (simp add: col_mean_def valid_def Let_def)

subsection \<open>Trimming\<close>

lemma strip_prefix_hd:
  assumes "rev (dropWhile P (rev t)) \<noteq> []"
  shows "hd (rev (dropWhile P (rev t))) = hd t"
proof -
  have "rev (takeWhile P (rev t) @ dropWhile P (rev t)) = t"
    by (simp only: takeWhile_dropWhile_id rev_rev_ident)
  then have "t = rev (dropWhile P (rev t)) @ rev (takeWhile P (rev t))"
    by (simp only: rev_append)
  then show ?thesis using assms by (metis hd_append2)
qed

lemma strip_idem: "strip (strip s) = strip s"
proof -
  define t where "t = dropWhile isspace s"
  define u where "u = rev (dropWhile isspace (rev t))"
  have su: "strip s = u" by (simp add: strip_def t_def u_def)
  have t_hd: "t = [] \<or> \<not> isspace (hd t)"
    unfolding t_def by (metis hd_dropWhile)
  have "u = [] \<or> \<not> isspace (hd u)"
  proof (cases "u = []")
    case False
    then have "hd u = hd t" unfolding u_def by (rule strip_prefix_hd)
    moreover have "t \<noteq> []" using False u_def by auto
    ultimately show ?thesis using t_hd by simp
  qed simp
  then have d1: "dropWhile isspace u = u" by (simp add: dropWhile_eq_self_iff)
  have "dropWhile isspace (rev u) = rev u"
    unfolding u_def by simp
  then have "strip u = u" unfolding strip_def d1 by simp
  then show ?thesis using su by simp
qed

lemma surviving_genres_trimmed:
  "list_all (\<lambda>g. g \<noteq> [] \<and> strip g = g) (surviving_genres c)"
  by (cases c) (auto simp: surviving_genres_def list_all_iff strip_idem)

subsection \<open>Ranking\<close>

lemma filter_take_all: "(\<And>x. x \<in> set xs \<Longrightarrow> P x) \<Longrightarrow> filter P (take n xs) = take n xs"
  by (rule filter_True) (auto dest: in_set_takeD)

lemma filter_take_none: "(\<And>x. x \<in> set xs \<Longrightarrow> \<not> P x) \<Longrightarrow> filter P (take n xs) = []"
  by (auto simp: filter_empty_conv dest: in_set_takeD)


lemma take_ranking_invalid:
  "filter (\<lambda>r. \<not> notna (col r))
     (take n (sort_key k (filter (\<lambda>r. notna (col r)) rs) @ filter (\<lambda>r. \<not> notna (col r)) rs))
     = take (n - length (filter (\<lambda>r. notna (col r)) rs)) (filter (\<lambda>r. \<not> notna (col r)) rs)"
proof -
  have "filter (\<lambda>r. \<not> notna (col r))
          (take n (sort_key k (filter (\<lambda>r. notna (col r)) rs))) = []"
    by (rule filter_take_none) simp
  moreover have "filter (\<lambda>r. \<not> notna (col r))
          (take (n - length (filter (\<lambda>r. notna (col r)) rs))
             (filter (\<lambda>r. \<not> notna (col r)) rs))
        = take (n - length (filter (\<lambda>r. notna (col r)) rs))
             (filter (\<lambda>r. \<not> notna (col r)) rs)"
    by (rule filter_take_all) simp
  ultimately show ?thesis by simp
qed


lemma sort_key_pair_zero:
  "sort_key (\<lambda>r. (f r, 0 :: nat)) xs = sort_key f xs"
proof (induction xs)
  case (Cons x xs)
  have "insort_key (\<lambda>r. (f r, 0 :: nat)) x ys = insort_key f x ys" for ys
    by (induction ys) (auto simp: less_eq_prod_def)
  with Cons show ?case by simp
qed simp

lemma nlargest_cases:
  "\<exists>k :: 'r \<Rightarrow> rat \<times> nat.
     nlargest tie n col rs =
       take n (sort_key k (filter (\<lambda>r. notna (col r)) rs) @ filter (\<lambda>r. \<not> notna (col r)) rs)
     \<and> (\<forall>r. fst (k r) = - the (col r))"
proof (cases "length rs \<le> n")
  case True
  then have "nlargest tie n col rs =
       take n (sort_key (\<lambda>r. (- the (col r), tie r)) (filter (\<lambda>r. notna (col r)) rs)
               @ filter (\<lambda>r. \<not> notna (col r)) rs)
     \<and> (\<forall>r. fst (- the (col r), tie r) = - the (col r))"
    by (simp add: nlargest_def default_ranking_def)
  then show ?thesis by blast
next
  case False
  then have "nlargest tie n col rs =
       take n (sort_key (\<lambda>r. (- the (col r), 0 :: nat)) (filter (\<lambda>r. notna (col r)) rs)
               @ filter (\<lambda>r. \<not> notna (col r)) rs)
     \<and> (\<forall>r. fst (- the (col r), 0 :: nat) = - the (col r))"
    by (simp add: nlargest_def stable_ranking_def sort_key_pair_zero)
  then show ?thesis by blast
qed



lemma nlargest_invalid_part:
  "filter (\<lambda>r. \<not> notna (col r)) (nlargest tie n col rs)
     = take (n - length (filter (\<lambda>r. notna (col r)) rs)) (filter (\<lambda>r. \<not> notna (col r)) rs)"
proof -
  obtain k :: "'a \<Rightarrow> rat \<times> nat" where e: "nlargest tie n col rs =
       take n (sort_key k (filter (\<lambda>r. notna (col r)) rs) @ filter (\<lambda>r. \<not> notna (col r)) rs)"
    using nlargest_cases [of tie n col rs] by blast
  show ?thesis unfolding e by (rule take_ranking_invalid)
qed









subsection \<open>Bucketing\<close>

lemma audience_counts_rows:
  "audience_counts df =
     [length (filter (\<lambda>r. cell_lt (audiAcc r) 100000) (rows df)),
      length (filter (\<lambda>r. cell_ge (audiAcc r) 100000 \<and> cell_lt (audiAcc r) 1000000) (rows df)),
      length (filter (\<lambda>r. cell_ge (audiAcc r) 1000000 \<and> cell_lt (audiAcc r) 5000000) (rows df)),
      length (filter (\<lambda>r. cell_ge (audiAcc r) 5000000 \<and> cell_lt (audiAcc r) 10000000) (rows df)),
      length (filter (\<lambda>r. cell_ge (audiAcc r) 10000000) (rows df))]"
  by (simp add: audience_counts_def select_def)

lemma audience_counts_single:
  "audience_counts (df\<lparr>rows := [r]\<rparr>) =
     (case audiAcc r of
        None \<Rightarrow> [0, 0, 0, 0, 0]
      | Some x \<Rightarrow>
          if x < 100000 then [1, 0, 0, 0, 0]
          else if x < 1000000 then [0, 1, 0, 0, 0]
          else if x < 5000000 then [0, 0, 1, 0, 0]
          else if x < 10000000 then [0, 0, 0, 1, 0]
          else [0, 0, 0, 0, 1])"
  unfolding audience_counts_rows
  by (cases "audiAcc r") (auto simp: cell_lt_def cell_ge_def)

lemma audience_counts_append:
  "audience_counts (df\<lparr>rows := xs @ ys\<rparr>) =
     map2 (+) (audience_counts (df\<lparr>rows := xs\<rparr>)) (audience_counts (df\<lparr>rows := ys\<rparr>))"
  unfolding audience_counts_rows by simp

lemma audience_counts_sum_rows:
  "sum_list (audience_counts (df\<lparr>rows := xs\<rparr>)) + length (filter (\<lambda>r. \<not> notna (audiAcc r)) xs)
     = length xs"
proof (induction xs)
  case Nil
  show ?case by (simp add: audience_counts_rows)
next
  case (Cons x xs)
  then show ?case
    unfolding audience_counts_rows
    by (cases "audiAcc x") (auto simp: cell_lt_def cell_ge_def notna_def)
qed

lemma audience_counts_total:
  "sum_list (audience_counts df) + length (filter (\<lambda>r. \<not> notna (audiAcc r)) (rows df))
     = length (rows df)"
  using audience_counts_sum_rows [where df = df and xs = "rows df"] by simp

subsection \<open>Loading\<close>

lemma load_rows:
  assumes "load_and_process_data to_datetime (Some k) (Some t) = Some (kd, td)"
  shows "rows kd = map (kobis_to_datetime to_datetime)
           (filter (\<lambda>r. cell_le (year r) current_year \<and> cell_ge (audiCnt r) 0
                         \<and> cell_ge (salesAmt r) 0) (rows k))"
    and "rows td = map (tmdb_to_datetime to_datetime)
           (filter (\<lambda>r. cell_le (tmdb_year r) current_year \<and> cell_ge (vote_average r) 0
                         \<and> cell_le (vote_average r) 10) (rows t))"
    and "columns kd = columns k" and "columns td = columns t"
proof -
  have kd: "kd = select (\<lambda>r. cell_ge (salesAmt r) 0) (select (\<lambda>r. cell_ge (audiCnt r) 0)
              \<lparr>columns = columns (select (\<lambda>r. cell_le (year r) current_year) k),
               rows = map (kobis_to_datetime to_datetime)
                        (rows (select (\<lambda>r. cell_le (year r) current_year) k))\<rparr>)"
    and td: "td = select (\<lambda>r. cell_ge (vote_average r) 0 \<and> cell_le (vote_average r) 10)
              \<lparr>columns = columns (select (\<lambda>r. cell_le (tmdb_year r) current_year) t),
               rows = map (tmdb_to_datetime to_datetime)
                        (rows (select (\<lambda>r. cell_le (tmdb_year r) current_year) t))\<rparr>"
    using assms by (simp_all add: load_and_process_data_def Let_def split: if_splits)
  show "rows kd = map (kobis_to_datetime to_datetime)
           (filter (\<lambda>r. cell_le (year r) current_year \<and> cell_ge (audiCnt r) 0
                         \<and> cell_ge (salesAmt r) 0) (rows k))"
    unfolding kd by (simp add: select_def filter_map comp_def kobis_to_datetime_def conj_commute conj_left_commute)
  show "rows td = map (tmdb_to_datetime to_datetime)
           (filter (\<lambda>r. cell_le (tmdb_year r) current_year \<and> cell_ge (vote_average r) 0
                         \<and> cell_le (vote_average r) 10) (rows t))"
    unfolding td by (simp add: select_def filter_map comp_def tmdb_to_datetime_def conj_commute conj_left_commute)
  show "columns kd = columns k" unfolding kd by (simp add: select_def)
  show "columns td = columns t" unfolding td by (simp add: select_def)
qed

lemma load_some_iff:
  "(\<exists>r. load_and_process_data to_datetime kobis_csv tmdb_csv = Some r) \<longleftrightarrow>
     (\<exists>k t. kobis_csv = Some k \<and> tmdb_csv = Some t
        \<and> has_column ''year'' k \<and> has_column ''year'' t
        \<and> has_column ''openDt'' k \<and> has_column ''release_date'' t
        \<and> has_column ''audiCnt'' k \<and> has_column ''salesAmt'' k
        \<and> has_column ''vote_average'' t)"
  by (auto simp: load_and_process_data_def Let_def split: option.splits)

subsection \<open>Insights and the frame they leave\<close>

lemma rate_value:
  "rate c t = Inr (if t = 0 then 0 else of_nat c / of_nat t * 100)"
  by (simp add: rate_def truediv_def)

lemma length_filter_mono:
  assumes "\<And>x. x \<in> set xs \<Longrightarrow> P x \<Longrightarrow> Q x"
  shows "length (filter P xs) \<le> length (filter Q xs)"
  using assms by (induction xs) auto

lemma summer_le_dated:
  "length (rows (select (\<lambda>r. isin (month r) [6, 7, 8]) (set_month df)))
     \<le> length (rows (select (\<lambda>r. notna (openDt r)) (set_month df)))"
  unfolding select_def
  by (simp, rule length_filter_mono) (auto simp: set_month_def isin_def notna_def split: option.splits)

lemma korean_insights_value:
  "korean_insights df =
     Inr (if \<not> empty_frame df \<and> has_dates df then set_month df else df,
          if empty_frame df then None
          else Some (of_nat (length (filter (\<lambda>r. cell_ge (audiAcc r) 10000000) (rows df)))
                       / of_nat (length (rows df)) * 100),
          if \<not> empty_frame df \<and> has_dates df
          then Some (if length (filter (\<lambda>r. notna (openDt r)) (rows df)) = 0 then 0
                     else of_nat (length (filter (\<lambda>r. isin (map_option ts_month (openDt r)) [6, 7, 8]) (rows df)))
                          / of_nat (length (filter (\<lambda>r. notna (openDt r)) (rows df))) * 100)
          else None)"
  by (simp add: korean_insights_def rate_value Let_def select_def set_month_def empty_frame_def filter_map comp_def)

lemma global_insights_value:
  "global_insights df =
     Inr (if empty_frame df then None
          else Some (of_nat (length (filter (\<lambda>r. cell_ge (vote_average r) 8) (rows df)))
                       / of_nat (length (rows df)) * 100),
          if \<not> empty_frame df \<and> has_column ''original_language'' df
          then Some (length (remdups (valid (map original_language (rows df)))))
          else None)"
  by (simp add: global_insights_def rate_value Let_def select_def empty_frame_def)

lemma show_insights_value:
  "show_insights k t =
     Inr (if \<not> empty_frame k \<and> has_dates k then set_month k else k,
          \<lparr>blockbuster_rate =
             (if empty_frame k then None
              else Some (of_nat (length (filter (\<lambda>r. cell_ge (audiAcc r) 10000000) (rows k)))
                           / of_nat (length (rows k)) * 100)),
           summer_rate =
             (if \<not> empty_frame k \<and> has_dates k
              then Some (if length (filter (\<lambda>r. notna (openDt r)) (rows k)) = 0 then 0
                         else of_nat (length (filter (\<lambda>r. isin (map_option ts_month (openDt r)) [6, 7, 8]) (rows k)))
                              / of_nat (length (filter (\<lambda>r. notna (openDt r)) (rows k))) * 100)
              else None),
           quality_rate =
             (if empty_frame t then None
              else Some (of_nat (length (filter (\<lambda>r. cell_ge (vote_average r) 8) (rows t)))
                           / of_nat (length (rows t)) * 100)),
           unique_languages =
             (if \<not> empty_frame t \<and> has_column ''original_language'' t
              then Some (length (remdups (valid (map original_language (rows t)))))
              else None)\<rparr>)"
  unfolding show_insights_def korean_insights_value global_insights_value by simp

lemma pct_bounds:
  assumes "c \<le> t"
  shows "0 \<le> (of_nat c :: rat) / of_nat t * 100 \<and> (of_nat c :: rat) / of_nat t * 100 \<le> 100"
proof -
  define x :: rat where "x = of_nat c / of_nat t"
  have "x \<le> 1"
  proof (cases "t = 0")
    case False
    then show ?thesis using assms by (simp add: x_def)
  qed (simp add: x_def)
  moreover have "0 \<le> x" by (simp add: x_def)
  ultimately have "0 \<le> x * 100 \<and> x * 100 \<le> 100" by linarith
  then show ?thesis unfolding x_def .
qed

lemma has_dates_nonempty: "has_dates k \<Longrightarrow> \<not> empty_frame k"
  by (auto simp: has_dates_def empty_frame_def)

lemma set_month_rows:
  "map (\<lambda>r. r\<lparr>month := None\<rparr>) (rows (set_month k)) = map (\<lambda>r. r\<lparr>month := None\<rparr>) (rows k)"
  by (simp add: set_month_def comp_def)

lemma show_key_metrics_frame:
  assumes "show_key_metrics k t = Inr (k', m)"
  shows "k' = (if has_dates k then set_month k else k)"
  using assms by (auto simp: show_key_metrics_def split: if_splits sum.splits)

lemma show_insights_frame:
  assumes "show_insights k t = Inr (k', ins)"
  shows "k' = (if has_dates k then set_month k else k)"
  using assms has_dates_nonempty [of k] unfolding show_insights_value by auto

subsection \<open>The loaded domestic frame\<close>

lemma cell_ge_zero: "cell_ge c (0 :: rat) \<longleftrightarrow> notna c \<and> 0 \<le> the c"
  by (cases c) (simp_all add: cell_ge_def notna_def)

lemma loaded_counts_valid:
  assumes "load_and_process_data to_datetime (Some k) (Some t) = Some (kd, td)"
  shows "list_all (\<lambda>r. notna (audiCnt r) \<and> 0 \<le> the (audiCnt r)
                      \<and> notna (salesAmt r) \<and> 0 \<le> the (salesAmt r)) (rows kd)"
  unfolding load_rows(1) [OF assms] list_all_iff
  by (auto simp: kobis_to_datetime_def cell_ge_zero)

lemma loaded_missing_audiAcc:
  assumes "load_and_process_data to_datetime (Some k) (Some t) = Some (kd, td)"
  shows "filter (\<lambda>r. \<not> notna (audiAcc r)) (rows kd)
     = map (kobis_to_datetime to_datetime)
         (filter (\<lambda>r. cell_le (year r) current_year \<and> cell_ge (audiCnt r) 0
                       \<and> cell_ge (salesAmt r) 0 \<and> \<not> notna (audiAcc r)) (rows k))"
  unfolding load_rows(1) [OF assms]
  by (simp add: filter_map comp_def kobis_to_datetime_def)

lemma blockbuster_denominator:
  "\<exists>k' ins. show_insights df t = Inr (k', ins)
     \<and> blockbuster_rate ins =
         (if empty_frame df then None
          else Some (of_nat (length (filter (\<lambda>r. cell_ge (audiAcc r) 10000000) (rows df)))
                       / of_nat (length (rows df)) * 100))"
  unfolding show_insights_value by simp

subsection \<open>The cells of a group\<close>

lemma valid_append: "valid (xs @ ys) = valid xs @ valid ys"
  by (simp add: valid_def)

lemma valid_replicate:
  "valid (replicate k c) = (if notna c then replicate k (the c) else [])"
  by (induction k) (simp_all add: valid_def)

lemma sum_valid_contributions:
  "sum_list (valid (contributions col g rs))
     = (\<Sum>r\<leftarrow>rs. of_nat (occurrences g r) * notna_else_0 (col r))"
  by (induction rs)
     (simp_all add: contributions_def valid_append valid_replicate notna_else_0_def
        sum_list_replicate valid_def)

lemma length_valid_contributions:
  assumes "list_all (\<lambda>r. notna (col r)) rs"
  shows "length (valid (contributions col g rs)) = (\<Sum>r\<leftarrow>rs. occurrences g r)"
  using assms
  by (induction rs) (simp_all add: contributions_def valid_append valid_replicate valid_def)

lemma length_contributions:
  "length (contributions col g rs) = (\<Sum>r\<leftarrow>rs. occurrences g r)"
  by (induction rs) (simp_all add: contributions_def)



lemma genre_agg_valid_only:
  assumes a: "list_all (\<lambda>r. notna (audiCnt r)) (rows df)"
  shows "map_of (genre_agg (genre_data df)) g =
     (if g \<in> set (map genre (genre_data df))
      then Some \<lparr>audiCnt_sum = round0 (sum_list (valid (contributions audiCnt g (rows df)))),
                 audiCnt_mean =
                   round0 (sum_list (valid (contributions audiCnt g (rows df)))
                           / of_nat (length (valid (contributions audiCnt g (rows df))))),
                 audiCnt_count = length (valid (contributions audiCnt g (rows df))),
                 salesAmt_sum = round0 (sum_list (valid (contributions salesAmt g (rows df))))\<rparr>
      else None)"
  unfolding genre_agg_lookup sum_valid_contributions length_valid_contributions [OF a]
  by simp


lemma count_list_distinct:
  "distinct xs \<Longrightarrow> count_list xs g = (if g \<in> set xs then 1 else 0)"
  by (induction xs) (auto simp: count_list_0_iff)

lemma occurrences_distinct:
  assumes "distinct (surviving_genres (genres r))"
  shows "occurrences g r = (if g \<in> set (surviving_genres (genres r)) then 1 else 0)"
  unfolding occurrences_def using assms by (rule count_list_distinct)

subsection \<open>Claims\<close>

text \<open>
  C1 (as the code has it): for every dataset, exploding a record's comma-separated genre
  list emits one exploded row per surviving part (split on the comma, trimmed, not empty;
  a label that the record repeats is not merged), each carrying the record's full metric
  values (0 where the record has none). So the aggregate of a genre receives the record's
  entire audience value once for each time the genre survives in the record: exactly once
  when the record does not repeat the label, k times when it has it k times. The sums are
  neither divided nor weighted, and the groups that are charted are groups of this
  aggregation. In particular the two records of audience 12,000,000 with genres
  "Action,Drama" and of audience 500,000 with genre "Drama" give Action the sum
  12,000,000 and the count 1, and Drama the sum 12,500,000 and the count 2.
\<close>

theorem genre_explosion_full_value:
  "genre_data df = concat (map exploded_rows (rows df))
   \<and> length (exploded_rows r) = length (surviving_genres (genres r))
   \<and> list_all (\<lambda>e. gd_audiCnt e = notna_else_0 (audiCnt r)
                    \<and> gd_salesAmt e = notna_else_0 (salesAmt r)) (exploded_rows r)
   \<and> map_of (genre_agg (genre_data df)) g =
       (if g \<in> set (map genre (genre_data df))
        then Some \<lparr>audiCnt_sum =
                     round0 (\<Sum>r\<leftarrow>rows df. of_nat (occurrences g r) * notna_else_0 (audiCnt r)),
                   audiCnt_mean =
                     round0 ((\<Sum>r\<leftarrow>rows df. of_nat (occurrences g r) * notna_else_0 (audiCnt r))
                             / of_nat (\<Sum>r\<leftarrow>rows df. occurrences g r)),
                   audiCnt_count = (\<Sum>r\<leftarrow>rows df. occurrences g r),
                   salesAmt_sum =
                     round0 (\<Sum>r\<leftarrow>rows df. of_nat (occurrences g r)
                                               * notna_else_0 (salesAmt r))\<rparr>
        else None)
   \<and> (distinct (surviving_genres (genres r)) \<longrightarrow>
        occurrences g r = (if g \<in> set (surviving_genres (genres r)) then 1 else 0))
   \<and> set (genre_summary (genre_data df)) \<subseteq> set (genre_agg (genre_data df))
   \<and> genre_summary (genre_data
         \<lparr>columns = [''movieNm'', ''audiCnt'', ''genres''],
          rows = [\<lparr>movieNm = ''A'', year = Some 2023, openDt = None :: timestamp option,
                   audiCnt = Some 12000000, salesAmt = None, audiAcc = None, scrnCnt = None,
                   genres = Some ''Action,Drama'', month = None\<rparr>,
                  \<lparr>movieNm = ''B'', year = Some 2023, openDt = None,
                   audiCnt = Some 500000, salesAmt = None, audiAcc = None, scrnCnt = None,
                   genres = Some ''Drama'', month = None\<rparr>]\<rparr>)
       = [(''Drama'', \<lparr>audiCnt_sum = 12500000, audiCnt_mean = 6250000, audiCnt_count = 2,
                       salesAmt_sum = 0\<rparr>),
          (''Action'', \<lparr>audiCnt_sum = 12000000, audiCnt_mean = 12000000, audiCnt_count = 1,
                        salesAmt_sum = 0\<rparr>)]"
proof (intro conjI impI)
  show "occurrences g r = (if g \<in> set (surviving_genres (genres r)) then 1 else 0)"
    if "distinct (surviving_genres (genres r))"
    using that by (rule occurrences_distinct)
  show "genre_data df = concat (map exploded_rows (rows df))"
    by (rule genre_data_concat)
  show "length (exploded_rows r) = length (surviving_genres (genres r))"
    by (simp add: exploded_rows_def)
  show "list_all (\<lambda>e. gd_audiCnt e = notna_else_0 (audiCnt r)
                    \<and> gd_salesAmt e = notna_else_0 (salesAmt r)) (exploded_rows r)"
    by (simp add: exploded_rows_def list_all_iff)
  show "set (genre_summary (genre_data df)) \<subseteq> set (genre_agg (genre_data df))"
    by (rule set_genre_summary)
qed (rule genre_agg_lookup, code_simp)

theorem genre_explosion_full_value_witness:
  "distinct (surviving_genres (genres
       \<lparr>movieNm = ''A'', year = Some 2023, openDt = None :: timestamp option,
        audiCnt = Some 12000000, salesAmt = None, audiAcc = None, scrnCnt = None,
        genres = Some ''Action,Drama'', month = None\<rparr>))
   \<and> occurrences ''Drama''
       \<lparr>movieNm = ''A'', year = Some 2023, openDt = None :: timestamp option,
        audiCnt = Some 12000000, salesAmt = None, audiAcc = None, scrnCnt = None,
        genres = Some ''Action,Drama'', month = None\<rparr> = 1"
proof -
  have h: "distinct (surviving_genres (genres
       \<lparr>movieNm = ''A'', year = Some 2023, openDt = None :: timestamp option,
        audiCnt = Some 12000000, salesAmt = None, audiAcc = None, scrnCnt = None,
        genres = Some ''Action,Drama'', month = None\<rparr>))"
    by code_simp
  have m: "''Drama'' \<in> set (surviving_genres (genres
       \<lparr>movieNm = ''A'', year = Some 2023, openDt = None :: timestamp option,
        audiCnt = Some 12000000, salesAmt = None, audiAcc = None, scrnCnt = None,
        genres = Some ''Action,Drama'', month = None\<rparr>))"
    by code_simp
  from genre_explosion_full_value
         [where r = "\<lparr>movieNm = ''A'', year = Some 2023, openDt = None :: timestamp option,
        audiCnt = Some 12000000, salesAmt = None, audiAcc = None, scrnCnt = None,
        genres = Some ''Action,Drama'', month = None\<rparr>" and g = "''Drama''"]
       h
  have "occurrences ''Drama''
       \<lparr>movieNm = ''A'', year = Some 2023, openDt = None :: timestamp option,
        audiCnt = Some 12000000, salesAmt = None, audiAcc = None, scrnCnt = None,
        genres = Some ''Action,Drama'', month = None\<rparr>
     = (if ''Drama'' \<in> set (surviving_genres (genres
       \<lparr>movieNm = ''A'', year = Some 2023, openDt = None :: timestamp option,
        audiCnt = Some 12000000, salesAmt = None, audiAcc = None, scrnCnt = None,
        genres = Some ''Action,Drama'', month = None\<rparr>))
        then 1 else 0)"
    by blast
  with m have "occurrences ''Drama''
       \<lparr>movieNm = ''A'', year = Some 2023, openDt = None :: timestamp option,
        audiCnt = Some 12000000, salesAmt = None, audiAcc = None, scrnCnt = None,
        genres = Some ''Action,Drama'', month = None\<rparr> = 1"
    by (simp only: if_True)
  with h show ?thesis by (rule conjI)
qed

text \<open>
  C1 as stated fails: a record of audience 7 whose genre field is "Drama, Drama ,Action"
  contributes 14, twice its audience value, to the sum of Drama (and counts twice there),
  while it contributes 7 to the sum of Action.
\<close>

theorem full_value_once_counterexample:
  "map_option audiCnt_sum (map_of (genre_agg (genre_data
      (kobis_of [\<lparr>movieNm = ''A'', year = Some 2023, openDt = None :: timestamp option,
                  audiCnt = Some 7, salesAmt = Some 3, audiAcc = None, scrnCnt = None,
                  genres = Some ''Drama, Drama ,Action'', month = None\<rparr>]))) ''Drama'') = Some 14
   \<and> map_option audiCnt_count (map_of (genre_agg (genre_data
      (kobis_of [\<lparr>movieNm = ''A'', year = Some 2023, openDt = None :: timestamp option,
                  audiCnt = Some 7, salesAmt = Some 3, audiAcc = None, scrnCnt = None,
                  genres = Some ''Drama, Drama ,Action'', month = None\<rparr>]))) ''Drama'') = Some 2
   \<and> map_option audiCnt_sum (map_of (genre_agg (genre_data
      (kobis_of [\<lparr>movieNm = ''A'', year = Some 2023, openDt = None :: timestamp option,
                  audiCnt = Some 7, salesAmt = Some 3, audiAcc = None, scrnCnt = None,
                  genres = Some ''Drama, Drama ,Action'', month = None\<rparr>]))) ''Action'') = Some 7
   \<and> map audiCnt (rows
      (kobis_of [\<lparr>movieNm = ''A'', year = Some 2023, openDt = None :: timestamp option,
                  audiCnt = Some 7, salesAmt = Some 3, audiAcc = None, scrnCnt = None,
                  genres = Some ''Drama, Drama ,Action'', month = None\<rparr>])) = [Some 7]"
  by code_simp

text \<open>
  C3 (as the code has it): the explosion splits the genre field on the comma, trims each
  part and drops the empty parts, and it does not deduplicate: every surviving part gives
  one exploded row, so a label that a record repeats k times gives k rows of that label
  for the record, and the group of the label counts the record k times. No exploded label
  is empty or carries outer white space.
\<close>

theorem explosion_keeps_repeated_labels:
  "map genre (genre_data df) = concat (map (\<lambda>r. surviving_genres (genres r)) (rows df))
   \<and> surviving_genres (Some s) = filter (\<lambda>g. g \<noteq> []) (map strip (split_on CHR '','' s))
   \<and> count_list (map genre (genre_data df)) g = (\<Sum>r\<leftarrow>rows df. occurrences g r)
   \<and> list_all (\<lambda>g. g \<noteq> [] \<and> strip g = g) (map genre (genre_data df))"
proof (intro conjI)
  show "map genre (genre_data df) = concat (map (\<lambda>r. surviving_genres (genres r)) (rows df))"
    by (rule genre_of_genre_data)
  show "surviving_genres (Some s) = filter (\<lambda>g. g \<noteq> []) (map strip (split_on CHR '','' s))"
    by (simp add: surviving_genres_def)
  show "count_list (map genre (genre_data df)) g = (\<Sum>r\<leftarrow>rows df. occurrences g r)"
    by (simp add: genre_of_genre_data count_list_concat occurrences_def comp_def)
  have "\<forall>r\<in>set (rows df). \<forall>g\<in>set (surviving_genres (genres r)). g \<noteq> [] \<and> strip g = g"
    using surviving_genres_trimmed by (simp add: list_all_iff)
  then show "list_all (\<lambda>g. g \<noteq> [] \<and> strip g = g) (map genre (genre_data df))"
    unfolding genre_of_genre_data list_all_iff by auto
qed

text \<open>
  C3 as stated fails: a record whose genre field is "Drama,Drama" contributes two exploded
  rows of the label Drama, and its group counts it twice.
\<close>

theorem repeated_label_counterexample:
  "map genre (genre_data
      \<lparr>columns = [''movieNm'', ''audiCnt'', ''genres''],
       rows = [\<lparr>movieNm = ''A'', year = Some 2023, openDt = None :: timestamp option,
                audiCnt = Some 7, salesAmt = Some 3, audiAcc = None, scrnCnt = None,
                genres = Some ''Drama,Drama'', month = None\<rparr>]\<rparr>)
     = [''Drama'', ''Drama'']
   \<and> genre_agg (genre_data
      \<lparr>columns = [''movieNm'', ''audiCnt'', ''genres''],
       rows = [\<lparr>movieNm = ''A'', year = Some 2023, openDt = None :: timestamp option,
                audiCnt = Some 7, salesAmt = Some 3, audiAcc = None, scrnCnt = None,
                genres = Some ''Drama,Drama'', month = None\<rparr>]\<rparr>)
     = [(''Drama'', \<lparr>audiCnt_sum = 14, audiCnt_mean = 7, audiCnt_count = 2,
                     salesAmt_sum = 6\<rparr>)]"
  by code_simp






text \<open>
  C5 (as the code has it): bucketing counts each row with a valid \<open>audiAcc\<close> in exactly
  one of the five ranges x < 100,000; 100,000 \<le> x < 1,000,000; 1,000,000 \<le> x < 5,000,000;
  5,000,000 \<le> x < 10,000,000; 10,000,000 \<le> x (the first without a lower bound, the last
  without an upper bound). A row with a missing value is counted in no range, and no count
  of such rows is computed: the five counts add up to the number of rows with a valid
  value, which is the number of rows less the number of rows with a missing value.
\<close>

theorem audience_counts_partition:
  "audience_counts (df\<lparr>rows := [r]\<rparr>) =
     (case audiAcc r of
        None \<Rightarrow> [0, 0, 0, 0, 0]
      | Some x \<Rightarrow>
          if x < 100000 then [1, 0, 0, 0, 0]
          else if x < 1000000 then [0, 1, 0, 0, 0]
          else if x < 5000000 then [0, 0, 1, 0, 0]
          else if x < 10000000 then [0, 0, 0, 1, 0]
          else [0, 0, 0, 0, 1])
   \<and> audience_counts (df\<lparr>rows := xs @ ys\<rparr>) =
       map2 (+) (audience_counts (df\<lparr>rows := xs\<rparr>)) (audience_counts (df\<lparr>rows := ys\<rparr>))
   \<and> length (audience_counts df) = 5
   \<and> sum_list (audience_counts df) + length (filter (\<lambda>r. \<not> notna (audiAcc r)) (rows df))
       = length (rows df)"
proof (intro conjI)
  show "length (audience_counts df) = 5"
    by (simp add: audience_counts_def)
qed (rule audience_counts_single, rule audience_counts_append, rule audience_counts_total)

text \<open>
  C5 as stated fails: the result of bucketing holds no exclusion count. The frame of a
  record A with a valid \<open>audiAcc\<close> and a record B without one gives the same five counts
  as the frame of A alone, so the excluded row cannot be told from the result, and the
  counts of the first frame add up to 1 where the frame has 2 rows.
\<close>

theorem bucketing_exclusion_counterexample:
  "audience_counts
      (kobis_of [\<lparr>movieNm = ''A'', year = Some 2023, openDt = None :: timestamp option,
                  audiCnt = Some 1, salesAmt = Some 1, audiAcc = Some 12000000,
                  scrnCnt = None, genres = None, month = None\<rparr>,
                 \<lparr>movieNm = ''B'', year = Some 2023, openDt = None,
                  audiCnt = Some 1, salesAmt = Some 1, audiAcc = None,
                  scrnCnt = None, genres = None, month = None\<rparr>])
     = [0, 0, 0, 0, 1]
   \<and> audience_counts
      (kobis_of [\<lparr>movieNm = ''A'', year = Some 2023, openDt = None :: timestamp option,
                  audiCnt = Some 1, salesAmt = Some 1, audiAcc = Some 12000000,
                  scrnCnt = None, genres = None, month = None\<rparr>])
     = [0, 0, 0, 0, 1]
   \<and> length (rows
      (kobis_of [\<lparr>movieNm = ''A'', year = Some 2023, openDt = None :: timestamp option,
                  audiCnt = Some 1, salesAmt = Some 1, audiAcc = Some 12000000,
                  scrnCnt = None, genres = None, month = None\<rparr>,
                 \<lparr>movieNm = ''B'', year = Some 2023, openDt = None,
                  audiCnt = Some 1, salesAmt = Some 1, audiAcc = None,
                  scrnCnt = None, genres = None, month = None\<rparr>])) = 2
   \<and> length (rows
      (kobis_of [\<lparr>movieNm = ''A'', year = Some 2023, openDt = None :: timestamp option,
                  audiCnt = Some 1, salesAmt = Some 1, audiAcc = Some 12000000,
                  scrnCnt = None, genres = None, month = None\<rparr>])) = 1"
  by code_simp

text \<open>
  C6 (as the code has it): loading removes from the domestic dataset, as a whole, every
  record whose \<open>audiCnt\<close> or \<open>salesAmt\<close> is negative or missing (and every record of a
  year after 2024 or without a year), and from the global dataset every record whose
  \<open>vote_average\<close> is outside [0, 10] or missing (and likewise for the year). No value is
  replaced by a marker: the records that stay are the input records in their order,
  changed only in the parsed date, and the columns stay as they were.
\<close>

theorem load_removes_invalid_records:
  assumes "load_and_process_data to_datetime (Some k) (Some t) = Some (kd, td)"
  shows "rows kd = map (kobis_to_datetime to_datetime)
           (filter (\<lambda>r. cell_le (year r) current_year \<and> cell_ge (audiCnt r) 0
                         \<and> cell_ge (salesAmt r) 0) (rows k))
         \<and> rows td = map (tmdb_to_datetime to_datetime)
           (filter (\<lambda>r. cell_le (tmdb_year r) current_year \<and> cell_ge (vote_average r) 0
                         \<and> cell_le (vote_average r) 10) (rows t))
         \<and> columns kd = columns k \<and> columns td = columns t"
  using load_rows [OF assms] by simp

theorem load_removes_invalid_records_witness:
  "load_and_process_data Map.empty
      (Some (kobis_of [\<lparr>movieNm = ''A'', year = Some 2023, openDt = ''2023-05-01'',
                        audiCnt = Some (- 1), salesAmt = Some 5, audiAcc = Some 9,
                        scrnCnt = Some 2, genres = Some ''Drama'', month = None\<rparr>,
                       \<lparr>movieNm = ''B'', year = Some 2023, openDt = ''2023-06-01'',
                        audiCnt = Some 4, salesAmt = Some 5, audiAcc = Some 9,
                        scrnCnt = Some 2, genres = Some ''Drama'', month = None\<rparr>]))
      (Some (tmdb_of [\<lparr>title = Some ''T'', tmdb_year = Some 2023, release_date = ''2023-05-01'',
                       vote_average = Some 11, vote_count = Some 3, popularity = Some 2,
                       original_language = Some ''en''\<rparr>]))
     = Some (kobis_of [\<lparr>movieNm = ''B'', year = Some 2023, openDt = None,
                        audiCnt = Some 4, salesAmt = Some 5, audiAcc = Some 9,
                        scrnCnt = Some 2, genres = Some ''Drama'', month = None\<rparr>],
             tmdb_of [])
   \<and> rows (kobis_of [\<lparr>movieNm = ''B'', year = Some 2023, openDt = None :: timestamp option,
                       audiCnt = Some 4, salesAmt = Some 5, audiAcc = Some 9,
                       scrnCnt = Some 2, genres = Some ''Drama'', month = None\<rparr>])
     = map (kobis_to_datetime Map.empty)
         (filter (\<lambda>r. cell_le (year r) current_year \<and> cell_ge (audiCnt r) 0
                       \<and> cell_ge (salesAmt r) 0)
            (rows (kobis_of [\<lparr>movieNm = ''A'', year = Some 2023, openDt = ''2023-05-01'',
                        audiCnt = Some (- 1), salesAmt = Some 5, audiAcc = Some 9,
                        scrnCnt = Some 2, genres = Some ''Drama'', month = None\<rparr>,
                       \<lparr>movieNm = ''B'', year = Some 2023, openDt = ''2023-06-01'',
                        audiCnt = Some 4, salesAmt = Some 5, audiAcc = Some 9,
                        scrnCnt = Some 2, genres = Some ''Drama'', month = None\<rparr>])))"
proof -
  have h: "load_and_process_data Map.empty
      (Some (kobis_of [\<lparr>movieNm = ''A'', year = Some 2023, openDt = ''2023-05-01'',
                        audiCnt = Some (- 1), salesAmt = Some 5, audiAcc = Some 9,
                        scrnCnt = Some 2, genres = Some ''Drama'', month = None\<rparr>,
                       \<lparr>movieNm = ''B'', year = Some 2023, openDt = ''2023-06-01'',
                        audiCnt = Some 4, salesAmt = Some 5, audiAcc = Some 9,
                        scrnCnt = Some 2, genres = Some ''Drama'', month = None\<rparr>]))
      (Some (tmdb_of [\<lparr>title = Some ''T'', tmdb_year = Some 2023, release_date = ''2023-05-01'',
                       vote_average = Some 11, vote_count = Some 3, popularity = Some 2,
                       original_language = Some ''en''\<rparr>]))
     = Some (kobis_of [\<lparr>movieNm = ''B'', year = Some 2023, openDt = None,
                        audiCnt = Some 4, salesAmt = Some 5, audiAcc = Some 9,
                        scrnCnt = Some 2, genres = Some ''Drama'', month = None\<rparr>],
             tmdb_of [])"
    by code_simp
  from load_removes_invalid_records [OF h] h show ?thesis by blast
qed

text \<open>
  C6 as stated fails: a domestic record with the audience count -1 and a global record with
  the rating 11 are not kept with that one metric marked absent; loading removes both
  records from their datasets altogether.
\<close>

theorem load_drops_record_counterexample:
  "load_and_process_data Map.empty
      (Some (kobis_of [\<lparr>movieNm = ''A'', year = Some 2023, openDt = ''2023-05-01'',
                        audiCnt = Some (- 1), salesAmt = Some 5, audiAcc = Some 9,
                        scrnCnt = Some 2, genres = Some ''Drama'', month = None\<rparr>]))
      (Some (tmdb_of [\<lparr>title = Some ''T'', tmdb_year = Some 2023, release_date = ''2023-05-01'',
                       vote_average = Some 11, vote_count = Some 3, popularity = Some 2,
                       original_language = Some ''en''\<rparr>]))
     = Some (kobis_of [], tmdb_of [])"
  by code_simp

text \<open>
  C8 (as the code has it): every rate that the insight calculator produces (blockbuster
  rate, summer-release rate, high-rating rate) is the ratio of the two counts multiplied
  by 100 inside the calculator: a percentage lying in [0, 100]. The calculator returns for
  all frames; it never raises.
\<close>

theorem rates_are_percentages:
  "\<exists>k' ins. show_insights k t = Inr (k', ins)
     \<and> blockbuster_rate ins =
         (if empty_frame k then None
          else Some (of_nat (length (filter (\<lambda>r. cell_ge (audiAcc r) 10000000) (rows k)))
                       / of_nat (length (rows k)) * 100))
     \<and> summer_rate ins =
         (if has_dates k
          then Some (of_nat (length (filter (\<lambda>r. isin (map_option ts_month (openDt r)) [6, 7, 8])
                                       (rows k)))
                       / of_nat (length (filter (\<lambda>r. notna (openDt r)) (rows k))) * 100)
          else None)
     \<and> quality_rate ins =
         (if empty_frame t then None
          else Some (of_nat (length (filter (\<lambda>r. cell_ge (vote_average r) 8) (rows t)))
                       / of_nat (length (rows t)) * 100))
     \<and> (\<forall>p. Some p \<in> {blockbuster_rate ins, summer_rate ins, quality_rate ins}
            \<longrightarrow> 0 \<le> p \<and> p \<le> 100)"
proof -
  let ?bb = "length (filter (\<lambda>r. cell_ge (audiAcc r) 10000000) (rows k))"
  let ?su = "length (filter (\<lambda>r. isin (map_option ts_month (openDt r)) [6, 7, 8]) (rows k))"
  let ?da = "length (filter (\<lambda>r. notna (openDt r)) (rows k))"
  let ?hi = "length (filter (\<lambda>r. cell_ge (vote_average r) 8) (rows t))"
  obtain k' ins where v: "show_insights k t = Inr (k', ins)"
    unfolding show_insights_value by blast
  have b: "blockbuster_rate ins =
         (if empty_frame k then None else Some (of_nat ?bb / of_nat (length (rows k)) * 100))"
    using v unfolding show_insights_value by auto
  have s: "summer_rate ins = (if has_dates k then Some (of_nat ?su / of_nat ?da * 100) else None)"
    using v has_dates_nonempty [of k] unfolding show_insights_value by auto
  have q: "quality_rate ins =
         (if empty_frame t then None else Some (of_nat ?hi / of_nat (length (rows t)) * 100))"
    using v unfolding show_insights_value by auto
  have "?su \<le> ?da"
    by (rule length_filter_mono) (auto simp: isin_def notna_def split: option.splits)
  then have sb: "0 \<le> (of_nat ?su :: rat) / of_nat ?da * 100 \<and> (of_nat ?su :: rat) / of_nat ?da * 100 \<le> 100"
    by (rule pct_bounds)
  have bb: "0 \<le> (of_nat ?bb :: rat) / of_nat (length (rows k)) * 100
            \<and> (of_nat ?bb :: rat) / of_nat (length (rows k)) * 100 \<le> 100"
    by (rule pct_bounds) simp
  have qb: "0 \<le> (of_nat ?hi :: rat) / of_nat (length (rows t)) * 100
            \<and> (of_nat ?hi :: rat) / of_nat (length (rows t)) * 100 \<le> 100"
    by (rule pct_bounds) simp
  have "\<forall>p. Some p \<in> {blockbuster_rate ins, summer_rate ins, quality_rate ins}
            \<longrightarrow> 0 \<le> p \<and> p \<le> 100"
    unfolding b s q using sb bb qb by (auto split: if_splits)
  with v b s q show ?thesis by blast
qed

theorem rates_are_percentages_witness:
  "\<exists>k' ins. show_insights
      (kobis_of [\<lparr>movieNm = ''A'', year = Some 2023, openDt = Some (Timestamp 2023 7 1),
                  audiCnt = Some 1, salesAmt = Some 1, audiAcc = Some 12000000,
                  scrnCnt = Some 3, genres = None, month = None\<rparr>,
                 \<lparr>movieNm = ''B'', year = Some 2023, openDt = None,
                  audiCnt = Some 1, salesAmt = Some 1, audiAcc = None,
                  scrnCnt = None, genres = None, month = None\<rparr>])
      (tmdb_of [\<lparr>title = Some ''T'', tmdb_year = Some 2023, release_date = None :: timestamp option,
                 vote_average = Some 9, vote_count = Some 3, popularity = Some 2,
                 original_language = Some ''en''\<rparr>])
     = Inr (k', ins)
     \<and> Some 50 \<in> {blockbuster_rate ins, summer_rate ins, quality_rate ins}
     \<and> (0 :: rat) \<le> 50 \<and> (50 :: rat) \<le> 100"
proof -
  have e: "show_insights
      (kobis_of [\<lparr>movieNm = ''A'', year = Some 2023, openDt = Some (Timestamp 2023 7 1),
                  audiCnt = Some 1, salesAmt = Some 1, audiAcc = Some 12000000,
                  scrnCnt = Some 3, genres = None, month = None\<rparr>,
                 \<lparr>movieNm = ''B'', year = Some 2023, openDt = None,
                  audiCnt = Some 1, salesAmt = Some 1, audiAcc = None,
                  scrnCnt = None, genres = None, month = None\<rparr>])
      (tmdb_of [\<lparr>title = Some ''T'', tmdb_year = Some 2023, release_date = None :: timestamp option,
                 vote_average = Some 9, vote_count = Some 3, popularity = Some 2,
                 original_language = Some ''en''\<rparr>])
     = Inr (\<lparr>columns = [''movieNm'', ''year'', ''openDt'', ''audiCnt'', ''salesAmt'', ''audiAcc'',
                 ''scrnCnt'', ''genres'', ''month''],
       rows = [\<lparr>movieNm = ''A'', year = Some 2023, openDt = Some (Timestamp 2023 7 1),
                  audiCnt = Some 1, salesAmt = Some 1, audiAcc = Some 12000000,
                  scrnCnt = Some 3, genres = None, month = Some 7\<rparr>,
               \<lparr>movieNm = ''B'', year = Some 2023, openDt = None,
                  audiCnt = Some 1, salesAmt = Some 1, audiAcc = None,
                  scrnCnt = None, genres = None, month = None\<rparr>]\<rparr>,
            \<lparr>blockbuster_rate = Some 50, summer_rate = Some 100, quality_rate = Some 100,
        unique_languages = Some 1\<rparr>)"
    by code_simp
  from rates_are_percentages
         [of "(kobis_of [\<lparr>movieNm = ''A'', year = Some 2023, openDt = Some (Timestamp 2023 7 1),
                  audiCnt = Some 1, salesAmt = Some 1, audiAcc = Some 12000000,
                  scrnCnt = Some 3, genres = None, month = None\<rparr>,
                 \<lparr>movieNm = ''B'', year = Some 2023, openDt = None,
                  audiCnt = Some 1, salesAmt = Some 1, audiAcc = None,
                  scrnCnt = None, genres = None, month = None\<rparr>])"
             "(tmdb_of [\<lparr>title = Some ''T'', tmdb_year = Some 2023, release_date = None :: timestamp option,
                 vote_average = Some 9, vote_count = Some 3, popularity = Some 2,
                 original_language = Some ''en''\<rparr>])"]
  obtain k' ins where
    v: "show_insights
      (kobis_of [\<lparr>movieNm = ''A'', year = Some 2023, openDt = Some (Timestamp 2023 7 1),
                  audiCnt = Some 1, salesAmt = Some 1, audiAcc = Some 12000000,
                  scrnCnt = Some 3, genres = None, month = None\<rparr>,
                 \<lparr>movieNm = ''B'', year = Some 2023, openDt = None,
                  audiCnt = Some 1, salesAmt = Some 1, audiAcc = None,
                  scrnCnt = None, genres = None, month = None\<rparr>])
      (tmdb_of [\<lparr>title = Some ''T'', tmdb_year = Some 2023, release_date = None :: timestamp option,
                 vote_average = Some 9, vote_count = Some 3, popularity = Some 2,
                 original_language = Some ''en''\<rparr>])
     = Inr (k', ins)"
    and b: "\<forall>p. Some p \<in> {blockbuster_rate ins, summer_rate ins, quality_rate ins}
            \<longrightarrow> 0 \<le> p \<and> p \<le> 100"
    by blast
  from v e have "blockbuster_rate ins = Some 50" by auto
  then have m: "Some 50 \<in> {blockbuster_rate ins, summer_rate ins, quality_rate ins}" by simp
  with b have "(0 :: rat) \<le> 50 \<and> (50 :: rat) \<le> 100" by blast
  with v m show ?thesis by blast
qed

text \<open>
  C8 as stated fails: for a domestic frame of two records, one of them with ten million
  admissions or more and the only dated one released in July, and a global frame of one
  record rated 9, the rates are 50, 100 and 100, not the plain ratios 0.5, 1 and 1.
\<close>

theorem percent_scaling_counterexample:
  "show_insights
      (kobis_of [\<lparr>movieNm = ''A'', year = Some 2023, openDt = Some (Timestamp 2023 7 1),
                  audiCnt = Some 1, salesAmt = Some 1, audiAcc = Some 12000000,
                  scrnCnt = Some 3, genres = None, month = None\<rparr>,
                 \<lparr>movieNm = ''B'', year = Some 2023, openDt = None,
                  audiCnt = Some 1, salesAmt = Some 1, audiAcc = None,
                  scrnCnt = None, genres = None, month = None\<rparr>])
      (tmdb_of [\<lparr>title = Some ''T'', tmdb_year = Some 2023, release_date = None :: timestamp option,
                 vote_average = Some 9, vote_count = Some 3, popularity = Some 2,
                 original_language = Some ''en''\<rparr>])
     = Inr (\<lparr>columns = [''movieNm'', ''year'', ''openDt'', ''audiCnt'', ''salesAmt'', ''audiAcc'',
                 ''scrnCnt'', ''genres'', ''month''],
       rows = [\<lparr>movieNm = ''A'', year = Some 2023, openDt = Some (Timestamp 2023 7 1),
                  audiCnt = Some 1, salesAmt = Some 1, audiAcc = Some 12000000,
                  scrnCnt = Some 3, genres = None, month = Some 7\<rparr>,
               \<lparr>movieNm = ''B'', year = Some 2023, openDt = None,
                  audiCnt = Some 1, salesAmt = Some 1, audiAcc = None,
                  scrnCnt = None, genres = None, month = None\<rparr>]\<rparr>,
            \<lparr>blockbuster_rate = Some 50, summer_rate = Some 100, quality_rate = Some 100,
        unique_languages = Some 1\<rparr>)"
  by code_simp

text \<open>
  C9 (as the code has it): no analysis stage removes a row or a column or changes a value
  of the columns that the dataset had. The key-metric computation and the insight
  computation, when the domestic frame has an \<open>openDt\<close> column with at least one parsed
  date, store the derived column \<open>month\<close> into the frame they were given (a new column,
  or new values for a column of that name); otherwise they leave the frame as it was.
\<close>

theorem analysis_stores_month_column:
  "(\<forall>k' m. show_key_metrics k t = Inr (k', m)
       \<longrightarrow> k' = (if has_dates k then set_month k else k))
   \<and> (\<forall>k' ins. show_insights k t = Inr (k', ins)
       \<longrightarrow> k' = (if has_dates k then set_month k else k))
   \<and> columns (set_month k)
       = (if has_column ''month'' k then columns k else columns k @ [''month''])
   \<and> map (\<lambda>r. r\<lparr>month := None\<rparr>) (rows (set_month k)) = map (\<lambda>r. r\<lparr>month := None\<rparr>) (rows k)
   \<and> map month (rows (set_month k)) = map (\<lambda>r. map_option ts_month (openDt r)) (rows k)"
proof (intro conjI allI impI)
  fix k' m assume "show_key_metrics k t = Inr (k', m)"
  then show "k' = (if has_dates k then set_month k else k)"
    by (rule show_key_metrics_frame)
next
  fix k' ins assume "show_insights k t = Inr (k', ins)"
  then show "k' = (if has_dates k then set_month k else k)"
    by (rule show_insights_frame)
next
  show "columns (set_month k)
       = (if has_column ''month'' k then columns k else columns k @ [''month''])"
    by (simp add: set_month_def)
  show "map (\<lambda>r. r\<lparr>month := None\<rparr>) (rows (set_month k)) = map (\<lambda>r. r\<lparr>month := None\<rparr>) (rows k)"
    by (rule set_month_rows)
  show "map month (rows (set_month k)) = map (\<lambda>r. map_option ts_month (openDt r)) (rows k)"
    by (simp add: set_month_def comp_def)
qed

theorem analysis_stores_month_column_witness:
  "show_insights
      (kobis_of [\<lparr>movieNm = ''A'', year = Some 2023, openDt = Some (Timestamp 2023 7 1),
                  audiCnt = Some 1, salesAmt = Some 1, audiAcc = Some 12000000,
                  scrnCnt = Some 3, genres = None, month = None\<rparr>,
                 \<lparr>movieNm = ''B'', year = Some 2023, openDt = None,
                  audiCnt = Some 1, salesAmt = Some 1, audiAcc = None,
                  scrnCnt = None, genres = None, month = None\<rparr>])
      (tmdb_of [\<lparr>title = Some ''T'', tmdb_year = Some 2023, release_date = None :: timestamp option,
                 vote_average = Some 9, vote_count = Some 3, popularity = Some 2,
                 original_language = Some ''en''\<rparr>])
     = Inr (\<lparr>columns = [''movieNm'', ''year'', ''openDt'', ''audiCnt'', ''salesAmt'', ''audiAcc'',
                 ''scrnCnt'', ''genres'', ''month''],
       rows = [\<lparr>movieNm = ''A'', year = Some 2023, openDt = Some (Timestamp 2023 7 1),
                  audiCnt = Some 1, salesAmt = Some 1, audiAcc = Some 12000000,
                  scrnCnt = Some 3, genres = None, month = Some 7\<rparr>,
               \<lparr>movieNm = ''B'', year = Some 2023, openDt = None,
                  audiCnt = Some 1, salesAmt = Some 1, audiAcc = None,
                  scrnCnt = None, genres = None, month = None\<rparr>]\<rparr>,
            \<lparr>blockbuster_rate = Some 50, summer_rate = Some 100, quality_rate = Some 100,
        unique_languages = Some 1\<rparr>)
   \<and> \<lparr>columns = [''movieNm'', ''year'', ''openDt'', ''audiCnt'', ''salesAmt'', ''audiAcc'',
                 ''scrnCnt'', ''genres'', ''month''],
       rows = [\<lparr>movieNm = ''A'', year = Some 2023, openDt = Some (Timestamp 2023 7 1),
                  audiCnt = Some 1, salesAmt = Some 1, audiAcc = Some 12000000,
                  scrnCnt = Some 3, genres = None, month = Some 7\<rparr>,
               \<lparr>movieNm = ''B'', year = Some 2023, openDt = None,
                  audiCnt = Some 1, salesAmt = Some 1, audiAcc = None,
                  scrnCnt = None, genres = None, month = None\<rparr>]\<rparr>
     = (if has_dates (kobis_of [\<lparr>movieNm = ''A'', year = Some 2023, openDt = Some (Timestamp 2023 7 1),
                  audiCnt = Some 1, salesAmt = Some 1, audiAcc = Some 12000000,
                  scrnCnt = Some 3, genres = None, month = None\<rparr>,
                 \<lparr>movieNm = ''B'', year = Some 2023, openDt = None,
                  audiCnt = Some 1, salesAmt = Some 1, audiAcc = None,
                  scrnCnt = None, genres = None, month = None\<rparr>])
        then set_month (kobis_of [\<lparr>movieNm = ''A'', year = Some 2023, openDt = Some (Timestamp 2023 7 1),
                  audiCnt = Some 1, salesAmt = Some 1, audiAcc = Some 12000000,
                  scrnCnt = Some 3, genres = None, month = None\<rparr>,
                 \<lparr>movieNm = ''B'', year = Some 2023, openDt = None,
                  audiCnt = Some 1, salesAmt = Some 1, audiAcc = None,
                  scrnCnt = None, genres = None, month = None\<rparr>])
        else (kobis_of [\<lparr>movieNm = ''A'', year = Some 2023, openDt = Some (Timestamp 2023 7 1),
                  audiCnt = Some 1, salesAmt = Some 1, audiAcc = Some 12000000,
                  scrnCnt = Some 3, genres = None, month = None\<rparr>,
                 \<lparr>movieNm = ''B'', year = Some 2023, openDt = None,
                  audiCnt = Some 1, salesAmt = Some 1, audiAcc = None,
                  scrnCnt = None, genres = None, month = None\<rparr>]))"
proof -
  have e: "show_insights
      (kobis_of [\<lparr>movieNm = ''A'', year = Some 2023, openDt = Some (Timestamp 2023 7 1),
                  audiCnt = Some 1, salesAmt = Some 1, audiAcc = Some 12000000,
                  scrnCnt = Some 3, genres = None, month = None\<rparr>,
                 \<lparr>movieNm = ''B'', year = Some 2023, openDt = None,
                  audiCnt = Some 1, salesAmt = Some 1, audiAcc = None,
                  scrnCnt = None, genres = None, month = None\<rparr>])
      (tmdb_of [\<lparr>title = Some ''T'', tmdb_year = Some 2023, release_date = None :: timestamp option,
                 vote_average = Some 9, vote_count = Some 3, popularity = Some 2,
                 original_language = Some ''en''\<rparr>])
     = Inr (\<lparr>columns = [''movieNm'', ''year'', ''openDt'', ''audiCnt'', ''salesAmt'', ''audiAcc'',
                 ''scrnCnt'', ''genres'', ''month''],
       rows = [\<lparr>movieNm = ''A'', year = Some 2023, openDt = Some (Timestamp 2023 7 1),
                  audiCnt = Some 1, salesAmt = Some 1, audiAcc = Some 12000000,
                  scrnCnt = Some 3, genres = None, month = Some 7\<rparr>,
               \<lparr>movieNm = ''B'', year = Some 2023, openDt = None,
                  audiCnt = Some 1, salesAmt = Some 1, audiAcc = None,
                  scrnCnt = None, genres = None, month = None\<rparr>]\<rparr>,
            \<lparr>blockbuster_rate = Some 50, summer_rate = Some 100, quality_rate = Some 100,
        unique_languages = Some 1\<rparr>)"
    by code_simp
  from analysis_stores_month_column
         [of "(kobis_of [\<lparr>movieNm = ''A'', year = Some 2023, openDt = Some (Timestamp 2023 7 1),
                  audiCnt = Some 1, salesAmt = Some 1, audiAcc = Some 12000000,
                  scrnCnt = Some 3, genres = None, month = None\<rparr>,
                 \<lparr>movieNm = ''B'', year = Some 2023, openDt = None,
                  audiCnt = Some 1, salesAmt = Some 1, audiAcc = None,
                  scrnCnt = None, genres = None, month = None\<rparr>])"
             "(tmdb_of [\<lparr>title = Some ''T'', tmdb_year = Some 2023, release_date = None :: timestamp option,
                 vote_average = Some 9, vote_count = Some 3, popularity = Some 2,
                 original_language = Some ''en''\<rparr>])"]
       e
  show ?thesis by blast
qed

text \<open>
  C9 as stated fails: the key-metric computation and the insight computation return a
  frame with one column more than the frame they received.
\<close>

theorem month_column_counterexample:
  "map_sum id (columns \<circ> fst)
     (show_key_metrics
      (kobis_of [\<lparr>movieNm = ''A'', year = Some 2023, openDt = Some (Timestamp 2023 7 1),
                  audiCnt = Some 1, salesAmt = Some 1, audiAcc = Some 12000000,
                  scrnCnt = Some 3, genres = None, month = None\<rparr>,
                 \<lparr>movieNm = ''B'', year = Some 2023, openDt = None,
                  audiCnt = Some 1, salesAmt = Some 1, audiAcc = None,
                  scrnCnt = None, genres = None, month = None\<rparr>])
      (tmdb_of [\<lparr>title = Some ''T'', tmdb_year = Some 2023, release_date = None :: timestamp option,
                 vote_average = Some 9, vote_count = Some 3, popularity = Some 2,
                 original_language = Some ''en''\<rparr>]))
     = Inr [''movieNm'', ''year'', ''openDt'', ''audiCnt'', ''salesAmt'', ''audiAcc'',
                 ''scrnCnt'', ''genres'', ''month'']
   \<and> map_sum id (columns \<circ> fst)
     (show_insights
      (kobis_of [\<lparr>movieNm = ''A'', year = Some 2023, openDt = Some (Timestamp 2023 7 1),
                  audiCnt = Some 1, salesAmt = Some 1, audiAcc = Some 12000000,
                  scrnCnt = Some 3, genres = None, month = None\<rparr>,
                 \<lparr>movieNm = ''B'', year = Some 2023, openDt = None,
                  audiCnt = Some 1, salesAmt = Some 1, audiAcc = None,
                  scrnCnt = None, genres = None, month = None\<rparr>])
      (tmdb_of [\<lparr>title = Some ''T'', tmdb_year = Some 2023, release_date = None :: timestamp option,
                 vote_average = Some 9, vote_count = Some 3, popularity = Some 2,
                 original_language = Some ''en''\<rparr>]))
     = Inr [''movieNm'', ''year'', ''openDt'', ''audiCnt'', ''salesAmt'', ''audiAcc'',
                 ''scrnCnt'', ''genres'', ''month'']
   \<and> columns (kobis_of [\<lparr>movieNm = ''A'', year = Some 2023, openDt = Some (Timestamp 2023 7 1),
                  audiCnt = Some 1, salesAmt = Some 1, audiAcc = Some 12000000,
                  scrnCnt = Some 3, genres = None, month = None\<rparr>,
                 \<lparr>movieNm = ''B'', year = Some 2023, openDt = None,
                  audiCnt = Some 1, salesAmt = Some 1, audiAcc = None,
                  scrnCnt = None, genres = None, month = None\<rparr>])
     = [''movieNm'', ''year'', ''openDt'', ''audiCnt'', ''salesAmt'', ''audiAcc'',
                 ''scrnCnt'', ''genres'']"
  by code_simp

text \<open>
  C10 (as the code has it): after a successful load every row of the cleaned domestic
  dataset has a present, non-negative \<open>audiCnt\<close> and \<open>salesAmt\<close> (a row with a missing
  value for either is dropped, the missing value failing the comparison with 0), while
  \<open>audiAcc\<close> is not validated: the rows with a missing \<open>audiAcc\<close> that pass the other
  filters survive. Bucketing over \<open>audiAcc\<close> counts them in no range; ranking places them
  after all rows with a valid value, so that they are in the top ten exactly when fewer
  than ten rows have a valid value; and they are counted in the denominator of the
  blockbuster rate, which is the number of all rows.
\<close>

theorem loaded_counts_valid_audiAcc_unchecked:
  assumes "load_and_process_data to_datetime (Some k) (Some t) = Some (kd, td)"
  shows "list_all (\<lambda>r. notna (audiCnt r) \<and> 0 \<le> the (audiCnt r)
                      \<and> notna (salesAmt r) \<and> 0 \<le> the (salesAmt r)) (rows kd)
   \<and> filter (\<lambda>r. \<not> notna (audiAcc r)) (rows kd)
       = map (kobis_to_datetime to_datetime)
           (filter (\<lambda>r. cell_le (year r) current_year \<and> cell_ge (audiCnt r) 0
                         \<and> cell_ge (salesAmt r) 0 \<and> \<not> notna (audiAcc r)) (rows k))
   \<and> sum_list (audience_counts (kobis_recent kd))
         + length (filter (\<lambda>r. \<not> notna (audiAcc r)) (rows (kobis_recent kd)))
       = length (rows (kobis_recent kd))
   \<and> filter (\<lambda>r. \<not> notna (audiAcc r)) (nlargest tie 10 audiAcc (rows (kobis_recent kd)))
       = take (10 - length (filter (\<lambda>r. notna (audiAcc r)) (rows (kobis_recent kd))))
           (filter (\<lambda>r. \<not> notna (audiAcc r)) (rows (kobis_recent kd)))
   \<and> (\<exists>k' ins. show_insights (kobis_recent kd) (tmdb_recent td) = Inr (k', ins)
        \<and> blockbuster_rate ins =
            (if empty_frame (kobis_recent kd) then None
             else Some (of_nat (length (filter (\<lambda>r. cell_ge (audiAcc r) 10000000)
                                         (rows (kobis_recent kd))))
                          / of_nat (length (rows (kobis_recent kd))) * 100)))"
  using loaded_counts_valid [OF assms] loaded_missing_audiAcc [OF assms]
    audience_counts_total [of "kobis_recent kd"]
    nlargest_invalid_part [of audiAcc tie 10 "rows (kobis_recent kd)"]
    blockbuster_denominator [of "kobis_recent kd" "tmdb_recent td"]
  by (intro conjI)

theorem loaded_counts_valid_audiAcc_unchecked_witness:
  "load_and_process_data Map.empty
      (Some (kobis_of [\<lparr>movieNm = ''A'', year = Some 2023, openDt = ''2023-07-01'',
                  audiCnt = Some 3, salesAmt = Some 4, audiAcc = Some 12000000,
                  scrnCnt = Some 2, genres = Some ''Drama'', month = None\<rparr>,
                 \<lparr>movieNm = ''B'', year = Some 2023, openDt = ''2023-08-01'',
                  audiCnt = Some 1, salesAmt = Some 4, audiAcc = None,
                  scrnCnt = Some 2, genres = Some ''Drama'', month = None\<rparr>,
                 \<lparr>movieNm = ''C'', year = Some 2023, openDt = ''2023-09-01'',
                  audiCnt = None, salesAmt = Some 4, audiAcc = Some 5,
                  scrnCnt = Some 2, genres = Some ''Drama'', month = None\<rparr>]))
      (Some (tmdb_of []))
     = Some ((kobis_of [\<lparr>movieNm = ''A'', year = Some 2023, openDt = None :: timestamp option,
                  audiCnt = Some 3, salesAmt = Some 4, audiAcc = Some 12000000,
                  scrnCnt = Some 2, genres = Some ''Drama'', month = None\<rparr>,
                 \<lparr>movieNm = ''B'', year = Some 2023, openDt = None :: timestamp option,
                  audiCnt = Some 1, salesAmt = Some 4, audiAcc = None,
                  scrnCnt = Some 2, genres = Some ''Drama'', month = None\<rparr>]),
             tmdb_of [])
   \<and> list_all (\<lambda>r. notna (audiCnt r) \<and> 0 \<le> the (audiCnt r)
                      \<and> notna (salesAmt r) \<and> 0 \<le> the (salesAmt r))
       (rows (kobis_of [\<lparr>movieNm = ''A'', year = Some 2023, openDt = None :: timestamp option,
                  audiCnt = Some 3, salesAmt = Some 4, audiAcc = Some 12000000,
                  scrnCnt = Some 2, genres = Some ''Drama'', month = None\<rparr>,
                 \<lparr>movieNm = ''B'', year = Some 2023, openDt = None :: timestamp option,
                  audiCnt = Some 1, salesAmt = Some 4, audiAcc = None,
                  scrnCnt = Some 2, genres = Some ''Drama'', month = None\<rparr>]))"
proof -
  have h: "load_and_process_data Map.empty
      (Some (kobis_of [\<lparr>movieNm = ''A'', year = Some 2023, openDt = ''2023-07-01'',
                  audiCnt = Some 3, salesAmt = Some 4, audiAcc = Some 12000000,
                  scrnCnt = Some 2, genres = Some ''Drama'', month = None\<rparr>,
                 \<lparr>movieNm = ''B'', year = Some 2023, openDt = ''2023-08-01'',
                  audiCnt = Some 1, salesAmt = Some 4, audiAcc = None,
                  scrnCnt = Some 2, genres = Some ''Drama'', month = None\<rparr>,
                 \<lparr>movieNm = ''C'', year = Some 2023, openDt = ''2023-09-01'',
                  audiCnt = None, salesAmt = Some 4, audiAcc = Some 5,
                  scrnCnt = Some 2, genres = Some ''Drama'', month = None\<rparr>]))
      (Some (tmdb_of []))
     = Some ((kobis_of [\<lparr>movieNm = ''A'', year = Some 2023, openDt = None :: timestamp option,
                  audiCnt = Some 3, salesAmt = Some 4, audiAcc = Some 12000000,
                  scrnCnt = Some 2, genres = Some ''Drama'', month = None\<rparr>,
                 \<lparr>movieNm = ''B'', year = Some 2023, openDt = None :: timestamp option,
                  audiCnt = Some 1, salesAmt = Some 4, audiAcc = None,
                  scrnCnt = Some 2, genres = Some ''Drama'', month = None\<rparr>]),
             tmdb_of [])"
    by code_simp
  from h loaded_counts_valid_audiAcc_unchecked [OF h, THEN conjunct1] show ?thesis
    by (rule conjI)
qed

text \<open>
  C10 as stated fails in what it says of ranking: the loaded frame of a record A with ten
  million admissions and a record B without \<open>audiAcc\<close> ranks B second in the top ten; the
  row is not skipped.
\<close>

theorem missing_audiAcc_ranked_counterexample:
  "load_and_process_data Map.empty
      (Some (kobis_of [\<lparr>movieNm = ''A'', year = Some 2023, openDt = ''2023-07-01'',
                  audiCnt = Some 3, salesAmt = Some 4, audiAcc = Some 12000000,
                  scrnCnt = Some 2, genres = Some ''Drama'', month = None\<rparr>,
                 \<lparr>movieNm = ''B'', year = Some 2023, openDt = ''2023-08-01'',
                  audiCnt = Some 1, salesAmt = Some 4, audiAcc = None,
                  scrnCnt = Some 2, genres = Some ''Drama'', month = None\<rparr>,
                 \<lparr>movieNm = ''C'', year = Some 2023, openDt = ''2023-09-01'',
                  audiCnt = None, salesAmt = Some 4, audiAcc = Some 5,
                  scrnCnt = Some 2, genres = Some ''Drama'', month = None\<rparr>]))
      (Some (tmdb_of []))
     = Some ((kobis_of [\<lparr>movieNm = ''A'', year = Some 2023, openDt = None :: timestamp option,
                  audiCnt = Some 3, salesAmt = Some 4, audiAcc = Some 12000000,
                  scrnCnt = Some 2, genres = Some ''Drama'', month = None\<rparr>,
                 \<lparr>movieNm = ''B'', year = Some 2023, openDt = None :: timestamp option,
                  audiCnt = Some 1, salesAmt = Some 4, audiAcc = None,
                  scrnCnt = Some 2, genres = Some ''Drama'', month = None\<rparr>]),
             tmdb_of [])
   \<and> top_movies keep_order (kobis_recent
      (kobis_of [\<lparr>movieNm = ''A'', year = Some 2023, openDt = None :: timestamp option,
                  audiCnt = Some 3, salesAmt = Some 4, audiAcc = Some 12000000,
                  scrnCnt = Some 2, genres = Some ''Drama'', month = None\<rparr>,
                 \<lparr>movieNm = ''B'', year = Some 2023, openDt = None :: timestamp option,
                  audiCnt = Some 1, salesAmt = Some 4, audiAcc = None,
                  scrnCnt = Some 2, genres = Some ''Drama'', month = None\<rparr>]))
     = Inr [(1, \<lparr>movieNm = ''A'', year = Some 2023, openDt = None :: timestamp option,
                  audiCnt = Some 3, salesAmt = Some 4, audiAcc = Some 12000000,
                  scrnCnt = Some 2, genres = Some ''Drama'', month = None\<rparr>),
            (2, \<lparr>movieNm = ''B'', year = Some 2023, openDt = None :: timestamp option,
                  audiCnt = Some 1, salesAmt = Some 4, audiAcc = None,
                  scrnCnt = Some 2, genres = Some ''Drama'', month = None\<rparr>)]"
  by code_simp

text \<open>
  C7: for every numerator count, the rate expression with a denominator of zero returns
  the sentinel 0 and does not raise a division fault; in particular the rate of 0 over 0
  is 0. (The expression never raises for any denominator.)
\<close>

theorem rate_zero_denominator:
  "rate n 0 = Inr 0 \<and> rate 0 0 = Inr 0 \<and> rate n d \<noteq> Inl ZeroDivisionError"
  by (simp add: rate_def truediv_def)

end
